theory Spec2Isabelle
  imports Main "HOL-Library.Word"
begin

section \<open>Platform values and collaborators\<close>

text \<open>
  The program is a browser application. Its credential subsystem lives in two files:
  \<^verbatim>\<open>src/utils/crypto.js\<close> (hashing, encryption, base64 helpers) and the \<^verbatim>\<open>AuthProvider\<close>
  component (account setup, login, lockout, secret handling). Both are written against
  browser interfaces (Web Crypto, \<^verbatim>\<open>btoa\<close>/\<^verbatim>\<open>atob\<close>, \<^verbatim>\<open>TextEncoder\<close>, WebAuthn, IndexedDB)
  that are not part of the repository. Those interfaces are parameters of the model: a
  record of functions, one field per call the source makes. \<^verbatim>\<open>Uint8Array\<close> contents are
  lists of 8-bit words, strings are \<^typ>\<open>string\<close>, JavaScript numbers that hold timestamps
  and counters are \<^typ>\<open>int\<close>, and a rejected promise or thrown exception is the left
  injection of a sum.
\<close>

type_synonym bytes = "8 word list"

datatype exn = OperationError | InvalidCharacterError | TypeError | NotAllowedError

datatype key_alg = AES_GCM nat | HMAC_SHA_256

record 'k platform =
  subtle_importKey :: "bytes \<Rightarrow> exn + 'k"
  subtle_deriveKey :: "bytes \<Rightarrow> nat \<Rightarrow> 'k \<Rightarrow> key_alg \<Rightarrow> exn + 'k"
  subtle_exportKey :: "'k \<Rightarrow> exn + bytes"
  subtle_encrypt :: "'k \<Rightarrow> bytes \<Rightarrow> bytes \<Rightarrow> exn + bytes"
  subtle_decrypt :: "'k \<Rightarrow> bytes \<Rightarrow> bytes \<Rightarrow> exn + bytes"
  btoa :: "string \<Rightarrow> string"
  atob :: "string \<Rightarrow> exn + string"
  encode :: "string \<Rightarrow> bytes"
  decode :: "bytes \<Rightarrow> string"

text \<open>
  \<^item> \<open>subtle_importKey buf\<close> is \<^verbatim>\<open>crypto.subtle.importKey('raw', buf, 'PBKDF2', false, [...])\<close>;
  \<^item> \<open>subtle_deriveKey salt iterations keyMaterial alg\<close> is \<^verbatim>\<open>crypto.subtle.deriveKey\<close> with
    PBKDF2 over SHA-256 and the derived key algorithm \<open>alg\<close>;
  \<^item> \<open>subtle_exportKey\<close> is \<^verbatim>\<open>crypto.subtle.exportKey('raw', key)\<close>;
  \<^item> \<open>subtle_encrypt key iv data\<close> and \<open>subtle_decrypt key iv data\<close> are AES-GCM;
  \<^item> \<open>encode\<close>/\<open>decode\<close> are \<^verbatim>\<open>TextEncoder.encode\<close> and \<^verbatim>\<open>TextDecoder.decode\<close>, which do
    not throw; \<open>btoa\<close> only throws on code units above 255, which a \<^typ>\<open>char\<close> never is.
\<close>

subsection \<open>The persisted record and the application state\<close>

text \<open>
  The record stored under key \<^verbatim>\<open>'main'\<close> of the \<^verbatim>\<open>auth\<close> table. A field that is \<^verbatim>\<open>null\<close> or
  absent is \<open>None\<close>; \<open>biometricEnabled\<close> is only ever tested for truthiness, so absent is
  \<open>False\<close>.
\<close>

record auth_data =
  passwordHash :: "string option"
  salt :: "string option"
  encryptedApiKey :: "string option"
  apiKeyIV :: "string option"
  biometricEnabled :: bool
  biometricCredentialId :: "string option"
  failedAttempts :: "int option"
  lockoutUntil :: "int option"
  createdAt :: "int option"
  targetCalories :: "int option"

record auth_state =
  isLoading :: bool
  needsSetup :: bool
  isAuthenticated :: bool
  authData :: "auth_data option"

text \<open>
  Everything the provider reads or writes: the three database tables, the session entry
  of \<^verbatim>\<open>sessionStorage\<close> (its \<^verbatim>\<open>expiresAt\<close>), the React state cells, the console, the clock
  and the random source. Every \<^verbatim>\<open>Date.now()\<close> of the source is one \<open>Date_now\<close> here:
  the \<open>n\<close>-th reading is \<open>clock w n\<close> milliseconds since the epoch (never negative), and
  consecutive readings may differ.
\<close>

record world =
  db_auth :: "auth_data option"
  db_dailyEntries :: "string list"
  db_exerciseHistory :: "string list"
  sessionStorage :: "int option"
  authState :: auth_state
  decryptedApiKey :: "string option"
  currentPassword :: "string option"
  console :: "(string \<times> exn) list"
  clock :: "nat \<Rightarrow> nat"
  clock_reads :: nat
  entropy :: "nat \<Rightarrow> 8 word"
  entropy_used :: nat

definition Date_now :: "world \<Rightarrow> int \<times> world" where
  "Date_now w = (int (clock w (clock_reads w)), w\<lparr>clock_reads := Suc (clock_reads w)\<rparr>)"

definition getRandomValues :: "nat \<Rightarrow> world \<Rightarrow> bytes \<times> world" where
  "getRandomValues n w =
     (map (entropy w) [entropy_used w ..< entropy_used w + n],
      w\<lparr>entropy_used := entropy_used w + n\<rparr>)"

definition console_error :: "string \<Rightarrow> exn \<Rightarrow> world \<Rightarrow> world" where
  "console_error msg e w = w\<lparr>console := console w @ [(msg, e)]\<rparr>"

text \<open>JavaScript's conversion of a possibly undefined string to a string.\<close>

definition String_of :: "string option \<Rightarrow> string" where
  "String_of v = (case v of None \<Rightarrow> ''undefined'' | Some s \<Rightarrow> s)"

text \<open>Truthiness of a nullable string and of a nullable number.\<close>

definition truthy_str :: "string option \<Rightarrow> bool" where
  "truthy_str v = (case v of None \<Rightarrow> False | Some s \<Rightarrow> s \<noteq> [])"

definition truthy_num :: "int option \<Rightarrow> bool" where
  "truthy_num v = (case v of None \<Rightarrow> False | Some n \<Rightarrow> n \<noteq> 0)"

section \<open>crypto.js\<close>

definition PBKDF2_ITERATIONS :: nat where "PBKDF2_ITERATIONS = 100000"
definition SALT_LENGTH :: nat where "SALT_LENGTH = 16"
definition IV_LENGTH :: nat where "IV_LENGTH = 12"

definition generateSalt :: "world \<Rightarrow> bytes \<times> world" where
  "generateSalt w = getRandomValues SALT_LENGTH w"

definition generateIV :: "world \<Rightarrow> bytes \<times> world" where
  "generateIV w = getRandomValues IV_LENGTH w"

definition fromCharCode :: "8 word \<Rightarrow> char" where
  "fromCharCode b = char_of (unat b)"

definition charCodeAt :: "char \<Rightarrow> nat" where
  "charCodeAt c = of_char c"

text \<open>The loop of \<^verbatim>\<open>bufferToBase64\<close>: append one character per byte.\<close>

fun binary_of_bytes :: "bytes \<Rightarrow> string \<Rightarrow> string" where
  "binary_of_bytes [] binary = binary"
| "binary_of_bytes (b # bs) binary = binary_of_bytes bs (binary @ [fromCharCode b])"

definition bufferToBase64 :: "'k platform \<Rightarrow> bytes \<Rightarrow> string" where
  "bufferToBase64 P buffer = btoa P (binary_of_bytes buffer [])"

text \<open>
  The loop of \<^verbatim>\<open>base64ToBuffer\<close>: store each character code into a \<^verbatim>\<open>Uint8Array\<close>, which
  keeps the low eight bits.
\<close>

fun bytes_of_binary :: "string \<Rightarrow> bytes" where
  "bytes_of_binary [] = []"
| "bytes_of_binary (c # cs) = word_of_nat (charCodeAt c) # bytes_of_binary cs"

definition base64ToBuffer :: "'k platform \<Rightarrow> string \<Rightarrow> exn + bytes" where
  "base64ToBuffer P base64 =
     (case atob P base64 of
        Inl e \<Rightarrow> Inl e
      | Inr binary \<Rightarrow> Inr (bytes_of_binary binary))"

definition derived_alg :: "string \<Rightarrow> key_alg" where
  "derived_alg usage = (if usage = ''encrypt'' then AES_GCM 256 else HMAC_SHA_256)"

definition deriveKey :: "'k platform \<Rightarrow> string \<Rightarrow> bytes \<Rightarrow> string \<Rightarrow> exn + 'k" where
  "deriveKey P password saltBytes usage =
     (let passwordBuffer = encode P password in
      case subtle_importKey P passwordBuffer of
        Inl e \<Rightarrow> Inl e
      | Inr keyMaterial \<Rightarrow>
          subtle_deriveKey P saltBytes PBKDF2_ITERATIONS keyMaterial (derived_alg usage))"

definition hashPassword ::
  "'k platform \<Rightarrow> string \<Rightarrow> bytes option \<Rightarrow> world \<Rightarrow> (exn + string \<times> string) \<times> world" where
  "hashPassword P password existingSalt w =
     (let (salt0, w1) = (case existingSalt of Some s \<Rightarrow> (s, w) | None \<Rightarrow> generateSalt w) in
      case deriveKey P password salt0 ''hash'' of
        Inl e \<Rightarrow> (Inl e, w1)
      | Inr key \<Rightarrow>
          (case subtle_exportKey P key of
             Inl e \<Rightarrow> (Inl e, w1)
           | Inr exportedKey \<Rightarrow>
               (Inr (bufferToBase64 P exportedKey, bufferToBase64 P salt0), w1)))"

definition verifyPassword ::
  "'k platform \<Rightarrow> string \<Rightarrow> string option \<Rightarrow> string option \<Rightarrow> world \<Rightarrow> (exn + bool) \<times> world" where
  "verifyPassword P password storedHash storedSalt w =
     (case base64ToBuffer P (String_of storedSalt) of
        Inl e \<Rightarrow> (Inl e, w)
      | Inr saltBuffer \<Rightarrow>
          (case hashPassword P password (Some saltBuffer) w of
             (Inl e, w1) \<Rightarrow> (Inl e, w1)
           | (Inr (hash, _), w1) \<Rightarrow> (Inr (Some hash = storedHash), w1)))"

definition encryptData ::
  "'k platform \<Rightarrow> string \<Rightarrow> string \<Rightarrow> string option \<Rightarrow> world \<Rightarrow> (exn + string \<times> string) \<times> world" where
  "encryptData P plaintext password salt64 w =
     (case base64ToBuffer P (String_of salt64) of
        Inl e \<Rightarrow> (Inl e, w)
      | Inr saltBuffer \<Rightarrow>
          (case deriveKey P password saltBuffer ''encrypt'' of
             Inl e \<Rightarrow> (Inl e, w)
           | Inr key \<Rightarrow>
               (let (iv, w1) = generateIV w;
                    plaintextBuffer = encode P plaintext in
                case subtle_encrypt P key iv plaintextBuffer of
                  Inl e \<Rightarrow> (Inl e, w1)
                | Inr encryptedBuffer \<Rightarrow>
                    (Inr (bufferToBase64 P encryptedBuffer, bufferToBase64 P iv), w1))))"

definition decryptData ::
  "'k platform \<Rightarrow> string option \<Rightarrow> string option \<Rightarrow> string \<Rightarrow> string option \<Rightarrow> exn + string" where
  "decryptData P encrypted iv password salt64 =
     (case base64ToBuffer P (String_of salt64) of
        Inl e \<Rightarrow> Inl e
      | Inr saltBuffer \<Rightarrow>
          (case deriveKey P password saltBuffer ''encrypt'' of
             Inl e \<Rightarrow> Inl e
           | Inr key \<Rightarrow>
               (case base64ToBuffer P (String_of iv) of
                  Inl e \<Rightarrow> Inl e
                | Inr ivBuffer \<Rightarrow>
                    (case base64ToBuffer P (String_of encrypted) of
                       Inl e \<Rightarrow> Inl e
                     | Inr encryptedBuffer \<Rightarrow>
                         (case subtle_decrypt P key ivBuffer encryptedBuffer of
                            Inl e \<Rightarrow> Inl e
                          | Inr decryptedBuffer \<Rightarrow> Inr (decode P decryptedBuffer))))))"


section \<open>db.js: the auth helpers\<close>

definition getAuthData :: "world \<Rightarrow> auth_data option" where
  "getAuthData w = db_auth w"

definition setAuthData :: "auth_data \<Rightarrow> world \<Rightarrow> world" where
  "setAuthData d w = w\<lparr>db_auth := Some d\<rparr>"

definition hasAuthSetup :: "world \<Rightarrow> bool" where
  "hasAuthSetup w = (case getAuthData w of None \<Rightarrow> False | Some a \<Rightarrow> truthy_str (passwordHash a))"

definition deleteAllData :: "world \<Rightarrow> world" where
  "deleteAllData w = w\<lparr>db_dailyEntries := [], db_auth := None, db_exerciseHistory := []\<rparr>"

section \<open>AuthContext: the provider's operations\<close>

definition SESSION_TIMEOUT :: int where "SESSION_TIMEOUT = 30 * 60 * 1000"
definition LOCKOUT_DURATION :: int where "LOCKOUT_DURATION = 30 * 1000"
definition MAX_FAILED_ATTEMPTS :: int where "MAX_FAILED_ATTEMPTS = 5"

text \<open>
  The objects the operations return. The \<^verbatim>\<open>error\<close> strings are kept structured: a template
  literal becomes a constructor carrying the interpolated number, and \<^verbatim>\<open>error.message\<close> of
  a caught exception is the exception.
\<close>

datatype message =
    NoAccountFound
  | TooManyAttempts int
  | InvalidPasswordRemaining int
  | ErrorMessage exn
  | BiometricNotEnabled
  | BiometricFailed
  | BiometricNotAvailable
  | PasswordRequired
  | NoApiKeyStored
  | InvalidPassword
  | FailedToDecrypt

record result =
  success :: bool
  error :: "message option"
  locked :: bool
  needsPasswordForApiKey :: "bool option"

definition succeeded :: result where
  "succeeded = \<lparr>success = True, error = None, locked = False, needsPasswordForApiKey = None\<rparr>"

definition failed :: "message \<Rightarrow> result" where
  "failed m = \<lparr>success = False, error = Some m, locked = False, needsPasswordForApiKey = None\<rparr>"

definition failed_locked :: "message \<Rightarrow> result" where
  "failed_locked m = \<lparr>success = False, error = Some m, locked = True, needsPasswordForApiKey = None\<rparr>"

text \<open>\<^verbatim>\<open>Math.ceil(x / d)\<close> on integers.\<close>

definition ceil_div :: "int \<Rightarrow> int \<Rightarrow> int" where
  "ceil_div x d = - ((- x) div d)"

text \<open>The object \<^verbatim>\<open>{...undefined}\<close>: every field absent.\<close>

definition no_fields :: auth_data where
  "no_fields = \<lparr>passwordHash = None, salt = None, encryptedApiKey = None, apiKeyIV = None,
     biometricEnabled = False, biometricCredentialId = None, failedAttempts = None,
     lockoutUntil = None, createdAt = None, targetCalories = None\<rparr>"

definition spread :: "auth_data option \<Rightarrow> auth_data" where
  "spread v = (case v of None \<Rightarrow> no_fields | Some a \<Rightarrow> a)"

definition authenticated_state :: "auth_data option \<Rightarrow> auth_state" where
  "authenticated_state a =
     \<lparr>isLoading = False, needsSetup = False, isAuthenticated = True, authData = a\<rparr>"

definition setupAccount :: "'k platform \<Rightarrow> string \<Rightarrow> int option \<Rightarrow> world \<Rightarrow> result \<times> world" where
  "setupAccount P password target w =
     (case hashPassword P password None w of
        (Inl e, w1) \<Rightarrow> (failed (ErrorMessage e), console_error ''Setup error:'' e w1)
      | (Inr (hash, salt64), w1) \<Rightarrow>
          (let (created, w2) = Date_now w1;
               rec = \<lparr>passwordHash = Some hash, salt = Some salt64, encryptedApiKey = None,
                      apiKeyIV = None, biometricEnabled = False, biometricCredentialId = None,
                      failedAttempts = Some 0, lockoutUntil = None, createdAt = Some created,
                      targetCalories = Some (case target of None \<Rightarrow> 2000 | Some t \<Rightarrow> t)\<rparr>;
               w3 = setAuthData rec w2;
               (now, w4) = Date_now w3;
               w5 = w4\<lparr>sessionStorage := Some (now + SESSION_TIMEOUT)\<rparr>;
               w6 = w5\<lparr>currentPassword := Some password\<rparr>;
               w7 = w6\<lparr>authState := authenticated_state (Some rec)\<rparr>
           in (succeeded, w7)))"

text \<open>
  The lockout test \<^verbatim>\<open>authData.lockoutUntil && authData.lockoutUntil > Date.now()\<close>: the clock
  is read only when the stored value is truthy.
\<close>

definition lockout_active :: "auth_data \<Rightarrow> world \<Rightarrow> bool \<times> world" where
  "lockout_active a w =
     (if truthy_num (lockoutUntil a)
      then (let (now, w1) = Date_now w in (the (lockoutUntil a) > now, w1))
      else (False, w))"

definition loginWithPassword :: "'k platform \<Rightarrow> string \<Rightarrow> world \<Rightarrow> result \<times> world" where
  "loginWithPassword P password w =
     (case getAuthData w of
        None \<Rightarrow> (failed NoAccountFound, w)
      | Some a \<Rightarrow>
          (case lockout_active a w of
             (True, w1) \<Rightarrow>
               (let (now, w2) = Date_now w1;
                    remainingSeconds = ceil_div (the (lockoutUntil a) - now) 1000
                in (failed_locked (TooManyAttempts remainingSeconds), w2))
           | (False, w1) \<Rightarrow>
               (case verifyPassword P password (passwordHash a) (salt a) w1 of
                  (Inl e, w2) \<Rightarrow> (failed (ErrorMessage e), console_error ''Login error:'' e w2)
                | (Inr False, w2) \<Rightarrow>
                    (let newFailedAttempts = (case failedAttempts a of None \<Rightarrow> 0 | Some n \<Rightarrow> n) + 1
                     in if newFailedAttempts \<ge> MAX_FAILED_ATTEMPTS
                        then (let (now, w3) = Date_now w2;
                                  w4 = setAuthData (a\<lparr>failedAttempts := Some 0,
                                         lockoutUntil := Some (now + LOCKOUT_DURATION)\<rparr>) w3
                              in if now + LOCKOUT_DURATION \<noteq> 0
                                 then (failed_locked (TooManyAttempts 30), w4)
                                 else (failed (InvalidPasswordRemaining
                                         (MAX_FAILED_ATTEMPTS - newFailedAttempts)), w4))
                        else (let w3 = setAuthData (a\<lparr>failedAttempts := Some newFailedAttempts\<rparr>) w2
                              in (failed (InvalidPasswordRemaining
                                    (MAX_FAILED_ATTEMPTS - newFailedAttempts)), w3)))
                | (Inr True, w2) \<Rightarrow>
                    (let w3 = setAuthData (a\<lparr>failedAttempts := Some 0, lockoutUntil := None\<rparr>) w2;
                         (apiKey, w4) =
                           (if truthy_str (encryptedApiKey a) \<and> truthy_str (apiKeyIV a)
                            then (case decryptData P (encryptedApiKey a) (apiKeyIV a) password (salt a) of
                                    Inl e \<Rightarrow> (None, console_error ''Failed to decrypt API key:'' e w3)
                                  | Inr k \<Rightarrow> (Some k, w3))
                            else (None, w3));
                         (now, w5) = Date_now w4;
                         w6 = w5\<lparr>sessionStorage := Some (now + SESSION_TIMEOUT)\<rparr>;
                         w7 = w6\<lparr>currentPassword := Some password\<rparr>;
                         w8 = w7\<lparr>decryptedApiKey := apiKey\<rparr>;
                         w9 = w8\<lparr>authState := authenticated_state (Some a)\<rparr>
                     in (succeeded, w9)))))"


text \<open>
  \<^verbatim>\<open>authenticateBiometric\<close> draws a 32-byte challenge, decodes the credential id (outside
  its \<^verbatim>\<open>try\<close>, so a decoding error escapes) and asks the platform authenticator. The
  authenticator's answer (\<open>asserted\<close>: \<^verbatim>\<open>navigator.credentials.get\<close> resolved with a non-null
  assertion) is an input of the model.
\<close>

definition authenticateBiometric ::
  "'k platform \<Rightarrow> string \<Rightarrow> bool \<Rightarrow> world \<Rightarrow> (exn + bool) \<times> world" where
  "authenticateBiometric P credentialId asserted w =
     (let (challenge, w1) = getRandomValues 32 w in
      case base64ToBuffer P credentialId of
        Inl e \<Rightarrow> (Inl e, w1)
      | Inr rawId \<Rightarrow> (Inr asserted, w1))"

definition loginWithBiometric :: "'k platform \<Rightarrow> bool \<Rightarrow> world \<Rightarrow> result \<times> world" where
  "loginWithBiometric P asserted w =
     (let stored = getAuthData w in
      if \<not> biometricEnabled (spread stored) \<or> \<not> truthy_str (biometricCredentialId (spread stored))
      then (failed BiometricNotEnabled, w)
      else
        (case authenticateBiometric P (String_of (biometricCredentialId (spread stored))) asserted w of
           (Inl e, w1) \<Rightarrow> (failed (ErrorMessage e), console_error ''Biometric login error:'' e w1)
         | (Inr False, w1) \<Rightarrow> (failed BiometricFailed, w1)
         | (Inr True, w1) \<Rightarrow>
             (let (now, w2) = Date_now w1;
                  w3 = w2\<lparr>sessionStorage := Some (now + SESSION_TIMEOUT)\<rparr>;
                  w4 = w3\<lparr>authState := authenticated_state stored\<rparr>
              in (\<lparr>success = True, error = None, locked = False,
                    needsPasswordForApiKey = Some (truthy_str (encryptedApiKey (spread stored)))\<rparr>,
                  w4))))"

text \<open>
  \<^verbatim>\<open>enableBiometric\<close>: \<open>available\<close> is the answer of \<^verbatim>\<open>isBiometricAvailable\<close> and \<open>created\<close>
  the outcome of \<^verbatim>\<open>navigator.credentials.create\<close> (the raw credential id, or the exception
  it threw). Reading \<^verbatim>\<open>authData.createdAt\<close> of a missing record is a \<^verbatim>\<open>TypeError\<close>.
\<close>

definition enableBiometric ::
  "'k platform \<Rightarrow> bool \<Rightarrow> exn + bytes \<Rightarrow> world \<Rightarrow> result \<times> world" where
  "enableBiometric P available created w =
     (if \<not> available then (failed BiometricNotAvailable, w)
      else
        (case getAuthData w of
           None \<Rightarrow> (failed (ErrorMessage TypeError), console_error ''Enable biometric error:'' TypeError w)
         | Some a \<Rightarrow>
             (let (challenge, w1) = getRandomValues 32 w in
              case created of
                Inl e \<Rightarrow> (failed (ErrorMessage e), console_error ''Enable biometric error:'' e w1)
              | Inr rawId \<Rightarrow>
                  (let credentialId = bufferToBase64 P rawId;
                       w2 = setAuthData (a\<lparr>biometricEnabled := True,
                              biometricCredentialId := Some credentialId\<rparr>) w1;
                       w3 = w2\<lparr>authState := (authState w2)\<lparr>authData :=
                              Some ((spread (authData (authState w2)))\<lparr>biometricEnabled := True,
                                biometricCredentialId := Some credentialId\<rparr>)\<rparr>\<rparr>
                   in (succeeded, w3)))))"

definition disableBiometric :: "world \<Rightarrow> result \<times> world" where
  "disableBiometric w =
     (let stored = getAuthData w;
          w1 = setAuthData ((spread stored)\<lparr>biometricEnabled := False,
                 biometricCredentialId := None\<rparr>) w;
          w2 = w1\<lparr>authState := (authState w1)\<lparr>authData :=
                 Some ((spread (authData (authState w1)))\<lparr>biometricEnabled := False,
                   biometricCredentialId := None\<rparr>)\<rparr>\<rparr>
      in (succeeded, w2))"

text \<open>
  \<^verbatim>\<open>saveApiKey(apiKey, password = currentPassword)\<close>: an omitted password argument
  (\<open>None\<close>) defaults to the password held in memory.
\<close>

definition saveApiKey ::
  "'k platform \<Rightarrow> string \<Rightarrow> string option \<Rightarrow> world \<Rightarrow> result \<times> world" where
  "saveApiKey P apiKey passwordArg w =
     (let password = (case passwordArg of None \<Rightarrow> currentPassword w | Some p \<Rightarrow> Some p) in
      if \<not> truthy_str password then (failed PasswordRequired, w)
      else
        (case getAuthData w of
           None \<Rightarrow> (failed (ErrorMessage TypeError), console_error ''Save API key error:'' TypeError w)
         | Some a \<Rightarrow>
             (case encryptData P apiKey (the password) (salt a) w of
                (Inl e, w1) \<Rightarrow> (failed (ErrorMessage e), console_error ''Save API key error:'' e w1)
              | (Inr (encrypted, iv), w1) \<Rightarrow>
                  (let w2 = setAuthData (a\<lparr>encryptedApiKey := Some encrypted, apiKeyIV := Some iv\<rparr>) w1;
                       w3 = w2\<lparr>decryptedApiKey := Some apiKey\<rparr>;
                       w4 = w3\<lparr>authState := (authState w3)\<lparr>authData :=
                              Some ((spread (authData (authState w3)))\<lparr>encryptedApiKey := Some encrypted,
                                apiKeyIV := Some iv\<rparr>)\<rparr>\<rparr>
                   in (succeeded, w4)))))"

definition unlockApiKey :: "'k platform \<Rightarrow> string \<Rightarrow> world \<Rightarrow> result \<times> world" where
  "unlockApiKey P password w =
     (case getAuthData w of
        None \<Rightarrow> (failed FailedToDecrypt, console_error ''Unlock API key error:'' TypeError w)
      | Some a \<Rightarrow>
          if \<not> truthy_str (encryptedApiKey a) \<or> \<not> truthy_str (apiKeyIV a)
          then (failed NoApiKeyStored, w)
          else
            (case verifyPassword P password (passwordHash a) (salt a) w of
               (Inl e, w1) \<Rightarrow> (failed FailedToDecrypt, console_error ''Unlock API key error:'' e w1)
             | (Inr False, w1) \<Rightarrow> (failed InvalidPassword, w1)
             | (Inr True, w1) \<Rightarrow>
                 (case decryptData P (encryptedApiKey a) (apiKeyIV a) password (salt a) of
                    Inl e \<Rightarrow> (failed FailedToDecrypt, console_error ''Unlock API key error:'' e w1)
                  | Inr apiKey \<Rightarrow>
                      (let w2 = w1\<lparr>currentPassword := Some password\<rparr>;
                           w3 = w2\<lparr>decryptedApiKey := Some apiKey\<rparr>
                       in (succeeded, w3)))))"

definition lock :: "world \<Rightarrow> world" where
  "lock w =
     (let w1 = w\<lparr>decryptedApiKey := None\<rparr>;
          w2 = w1\<lparr>currentPassword := None\<rparr>;
          w3 = w2\<lparr>sessionStorage := None\<rparr>
      in w3\<lparr>authState := (authState w3)\<lparr>isAuthenticated := False\<rparr>\<rparr>)"

definition deleteAll :: "'k platform \<Rightarrow> string \<Rightarrow> world \<Rightarrow> result \<times> world" where
  "deleteAll P password w =
     (case getAuthData w of
        None \<Rightarrow> (failed (ErrorMessage TypeError), console_error ''Delete all error:'' TypeError w)
      | Some a \<Rightarrow>
          (case verifyPassword P password (passwordHash a) (salt a) w of
             (Inl e, w1) \<Rightarrow> (failed (ErrorMessage e), console_error ''Delete all error:'' e w1)
           | (Inr False, w1) \<Rightarrow> (failed InvalidPassword, w1)
           | (Inr True, w1) \<Rightarrow>
               (let w2 = deleteAllData w1;
                    w3 = w2\<lparr>decryptedApiKey := None\<rparr>;
                    w4 = w3\<lparr>currentPassword := None\<rparr>;
                    w5 = w4\<lparr>sessionStorage := None\<rparr>;
                    w6 = w5\<lparr>authState := \<lparr>isLoading = False, needsSetup = True,
                           isAuthenticated = False, authData = None\<rparr>\<rparr>
                in (succeeded, w6))))"

text \<open>
  Loading the page: the React state starts empty (nothing decrypted, no password held,
  \<^verbatim>\<open>isLoading\<close> set), then \<^verbatim>\<open>initAuth\<close> restores the session from \<^verbatim>\<open>sessionStorage\<close> if it
  has not expired and an account exists.
\<close>

definition initAuth :: "world \<Rightarrow> world" where
  "initAuth w =
     (let hasSetup = hasAuthSetup w;
          stored = getAuthData w;
          (authenticated, w1) =
            (case sessionStorage w of
               None \<Rightarrow> (False, w)
             | Some expiresAt \<Rightarrow>
                 if hasSetup
                 then (let (now, w') = Date_now w in
                       if expiresAt > now
                       then (let (lastActivity, w'') = Date_now w' in (True, w''))
                       else (False, w'\<lparr>sessionStorage := None\<rparr>))
                 else (False, w))
      in w1\<lparr>authState := \<lparr>isLoading = False, needsSetup = \<not> hasSetup,
              isAuthenticated = authenticated, authData = stored\<rparr>\<rparr>)"

definition page_load :: "world \<Rightarrow> world" where
  "page_load w =
     initAuth (w\<lparr>authState := \<lparr>isLoading = True, needsSetup = False, isAuthenticated = False,
                   authData = None\<rparr>,
                 decryptedApiKey := None, currentPassword := None\<rparr>)"


section \<open>Operations in sequence and in flight\<close>

text \<open>A list of password logins made one after the other, with their outcomes.\<close>

fun login_attempts :: "'k platform \<Rightarrow> string list \<Rightarrow> world \<Rightarrow> result list \<times> world" where
  "login_attempts P [] w = ([], w)"
| "login_attempts P (password # rest) w =
     (let (r, w1) = loginWithPassword P password w;
          (rs, w2) = login_attempts P rest w1
      in (r # rs, w2))"

text \<open>
  The provider's operations are \<^verbatim>\<open>async\<close>: at each \<^verbatim>\<open>await\<close> the call is suspended and other
  callbacks run, among them \<^verbatim>\<open>lock\<close> (the lock button, the idle timer, the blur timer).
  \<^verbatim>\<open>saveApiKey\<close> awaits \<^verbatim>\<open>getAuthData\<close>, \<^verbatim>\<open>encryptData\<close> and \<^verbatim>\<open>setAuthData\<close>, and only then
  calls \<^verbatim>\<open>setDecryptedApiKey\<close> and \<^verbatim>\<open>setAuthState\<close>. It is cut here at its last \<^verbatim>\<open>await\<close>:
  \<open>saveApiKey_begin\<close> runs the call until \<^verbatim>\<open>await setAuthData(...)\<close> and either returns the
  call's result (\<open>Inl\<close>) or leaves it suspended with its local variables (\<open>Inr\<close>), and
  \<open>saveApiKey_resume\<close> is the continuation after that \<^verbatim>\<open>await\<close>.
\<close>

definition saveApiKey_begin ::
  "'k platform \<Rightarrow> string \<Rightarrow> string option \<Rightarrow> world \<Rightarrow>
     (result + string \<times> string \<times> string) \<times> world" where
  "saveApiKey_begin P apiKey passwordArg w =
     (let password = (case passwordArg of None \<Rightarrow> currentPassword w | Some p \<Rightarrow> Some p) in
      if \<not> truthy_str password then (Inl (failed PasswordRequired), w)
      else
        (case getAuthData w of
           None \<Rightarrow> (Inl (failed (ErrorMessage TypeError)),
                    console_error ''Save API key error:'' TypeError w)
         | Some a \<Rightarrow>
             (case encryptData P apiKey (the password) (salt a) w of
                (Inl e, w1) \<Rightarrow> (Inl (failed (ErrorMessage e)),
                               console_error ''Save API key error:'' e w1)
              | (Inr (encrypted, iv), w1) \<Rightarrow>
                  (Inr (apiKey, encrypted, iv),
                   setAuthData (a\<lparr>encryptedApiKey := Some encrypted, apiKeyIV := Some iv\<rparr>) w1))))"

definition saveApiKey_resume :: "string \<times> string \<times> string \<Rightarrow> world \<Rightarrow> result \<times> world" where
  "saveApiKey_resume locals w =
     (case locals of
        (apiKey, encrypted, iv) \<Rightarrow>
          (let w3 = w\<lparr>decryptedApiKey := Some apiKey\<rparr>;
               w4 = w3\<lparr>authState := (authState w3)\<lparr>authData :=
                      Some ((spread (authData (authState w3)))\<lparr>encryptedApiKey := Some encrypted,
                        apiKeyIV := Some iv\<rparr>)\<rparr>\<rparr>
           in (succeeded, w4)))"

text \<open>
  A \<^verbatim>\<open>saveApiKey\<close> call during whose last suspension \<open>meanwhile\<close> runs. With nothing
  running in between it is \<open>saveApiKey\<close> itself.
\<close>

definition saveApiKey_interrupted ::
  "'k platform \<Rightarrow> string \<Rightarrow> string option \<Rightarrow> (world \<Rightarrow> world) \<Rightarrow> world \<Rightarrow> result \<times> world" where
  "saveApiKey_interrupted P apiKey passwordArg meanwhile w =
     (case saveApiKey_begin P apiKey passwordArg w of
        (Inl r, w1) \<Rightarrow> (r, w1)
      | (Inr locals, w1) \<Rightarrow> saveApiKey_resume locals (meanwhile w1))"

section \<open>A small platform for evaluating the operations\<close>

text \<open>
  An executable stand-in for the browser: keys are raw bytes, the derived key is the
  password bytes followed by the salt, the cipher prefixes the plaintext with key and
  nonce and rejects any other prefix, base64 is the identity.
\<close>

definition demo_platform :: "bytes platform" where
  "demo_platform =
     \<lparr>subtle_importKey = Inr,
      subtle_deriveKey = (\<lambda>s n keyMaterial alg. Inr (keyMaterial @ s)),
      subtle_exportKey = Inr,
      subtle_encrypt = (\<lambda>k iv plain. Inr (k @ iv @ plain)),
      subtle_decrypt = (\<lambda>k iv cipher.
         if take (length (k @ iv)) cipher = k @ iv
         then Inr (drop (length (k @ iv)) cipher) else Inl OperationError),
      btoa = (\<lambda>s. s),
      atob = Inr,
      encode = bytes_of_binary,
      decode = (\<lambda>bs. binary_of_bytes bs [])\<rparr>"

definition blank_world :: world where
  "blank_world =
     \<lparr>db_auth = None, db_dailyEntries = [], db_exerciseHistory = [], sessionStorage = None,
      authState = \<lparr>isLoading = True, needsSetup = False, isAuthenticated = False, authData = None\<rparr>,
      decryptedApiKey = None, currentPassword = None, console = [],
      clock = (\<lambda>n. 1000 * n), clock_reads = 0, entropy = (\<lambda>n. 7), entropy_used = 0\<rparr>"


text \<open>
  An account for the password \<open>''hunter22''\<close> on that platform, with the secret
  \<open>''sk-abc123''\<close> stored and biometric login enabled, shown on the login screen.
\<close>

definition demo_record :: auth_data where
  "demo_record =
     \<lparr>passwordHash = Some ''hunter22salt'', salt = Some ''salt'',
      encryptedApiKey = Some ''hunter22saltnoncesk-abc123'', apiKeyIV = Some ''nonce'',
      biometricEnabled = True, biometricCredentialId = Some ''cred'',
      failedAttempts = Some 0, lockoutUntil = None, createdAt = Some 0,
      targetCalories = Some 2000\<rparr>"

definition world_with :: "auth_data \<Rightarrow> world" where
  "world_with a =
     blank_world\<lparr>db_auth := Some a, db_dailyEntries := [''2026-02-04''],
       authState := \<lparr>isLoading = False, needsSetup = False, isAuthenticated = False,
                      authData = Some a\<rparr>\<rparr>"

definition account_world :: world where
  "account_world = world_with demo_record"

text \<open>The same account during a lockout that lasts until 20 seconds after the epoch.\<close>

definition lockedout_record :: auth_data where
  "lockedout_record = demo_record\<lparr>lockoutUntil := Some 20000\<rparr>"

definition lockedout_world :: world where
  "lockedout_world = world_with lockedout_record"

text \<open>The same account with a stored secret that no longer decrypts.\<close>

definition corrupt_record :: auth_data where
  "corrupt_record = demo_record\<lparr>encryptedApiKey := Some ''garbage''\<rparr>"

definition corrupt_world :: world where
  "corrupt_world = world_with corrupt_record"

text \<open>
  The established account after a password login, and that session after the user saves
  the secret \<open>''sk-new''\<close> and \<^verbatim>\<open>lock\<close> runs while the save is suspended.
\<close>

definition password_session_world :: world where
  "password_session_world = snd (loginWithPassword demo_platform ''hunter22'' account_world)"

definition raced_world :: world where
  "raced_world =
     snd (saveApiKey_interrupted demo_platform ''sk-new'' None lock password_session_world)"

text \<open>A platform on which importing the password as key material is rejected.\<close>

definition rejecting_platform :: "bytes platform" where
  "rejecting_platform = demo_platform\<lparr>subtle_importKey := (\<lambda>buf. Inl OperationError)\<rparr>"

section \<open>Properties of crypto.js\<close>

lemma binary_of_bytes_append: "binary_of_bytes bs acc = acc @ map fromCharCode bs"
  by (induction bs arbitrary: acc) simp_all

lemma bytes_of_binary_map: "bytes_of_binary cs = map (\<lambda>c. word_of_nat (charCodeAt c)) cs"
  by (induction cs) simp_all


lemma char_byte_roundtrip: "fromCharCode (word_of_nat (charCodeAt c)) = c"
  unfolding charCodeAt_def fromCharCode_def by (simp add: unat_of_nat)


lemma binary_bytes_roundtrip: "binary_of_bytes (bytes_of_binary cs) [] = cs"
  by (simp add: binary_of_bytes_append bytes_of_binary_map char_byte_roundtrip o_def map_idI)

lemma binary_of_bytes_app:
  "binary_of_bytes (xs @ ys) [] = binary_of_bytes xs [] @ binary_of_bytes ys []"
  by (simp add: binary_of_bytes_append)

lemma bytes_of_binary_app: "bytes_of_binary (xs @ ys) = bytes_of_binary xs @ bytes_of_binary ys"
  by (simp add: bytes_of_binary_map)

lemma bytes_of_binary_inj: "(bytes_of_binary a = bytes_of_binary b) = (a = b)"
  by (metis binary_bytes_roundtrip)

lemma bytes_of_binary_take: "take n (bytes_of_binary e) = bytes_of_binary (take n e)"
  by (simp add: bytes_of_binary_map take_map)

lemma bytes_of_binary_drop: "drop n (bytes_of_binary e) = bytes_of_binary (drop n e)"
  by (simp add: bytes_of_binary_map drop_map)

lemma bytes_of_binary_length: "length (bytes_of_binary e) = length e"
  by (simp add: bytes_of_binary_map)


text \<open>With a given salt, hashing and verification neither read nor change the state.\<close>

lemma hashPassword_given_salt:
  "hashPassword P password (Some s) w = (fst (hashPassword P password (Some s) w'), w)"
  by (simp add: hashPassword_def split: sum.splits)

lemma verifyPassword_world:
  "verifyPassword P password h s w = (fst (verifyPassword P password h s w'), w)"
proof (cases "base64ToBuffer P (String_of s)")
  case (Inl e)
  then show ?thesis by (simp add: verifyPassword_def)
next
  case (Inr sb)
  obtain v where v: "\<And>u. hashPassword P password (Some sb) u = (v, u)"
    using hashPassword_given_salt [of P password sb] by metis
  show ?thesis
    by (cases v) (auto simp add: verifyPassword_def Inr v split: prod.splits)
qed

lemma verifyPassword_eq:
  "fst (verifyPassword P password h s w) = v \<Longrightarrow> verifyPassword P password h s w' = (v, w')"
  using verifyPassword_world [of P password h s w' w] by simp

subsection \<open>The demonstration platform, evaluated\<close>

lemma demo_base64ToBuffer: "base64ToBuffer demo_platform s = Inr (bytes_of_binary s)"
  by (simp add: base64ToBuffer_def demo_platform_def)

lemma demo_bufferToBase64: "bufferToBase64 demo_platform bs = binary_of_bytes bs []"
  by (simp add: bufferToBase64_def demo_platform_def)

lemma demo_deriveKey:
  "deriveKey demo_platform password s usage = Inr (bytes_of_binary password @ s)"
  by (simp add: deriveKey_def demo_platform_def)

lemma demo_exportKey: "subtle_exportKey demo_platform k = Inr k"
  by (simp add: demo_platform_def)


lemma demo_encrypt: "subtle_encrypt demo_platform k iv plain = Inr (k @ iv @ plain)"
  by (simp add: demo_platform_def)

lemma demo_decrypt:
  "subtle_decrypt demo_platform k iv c =
     (if take (length (k @ iv)) c = k @ iv then Inr (drop (length (k @ iv)) c)
      else Inl OperationError)"
  by (simp add: demo_platform_def)

lemma demo_encode: "encode demo_platform s = bytes_of_binary s"
  by (simp add: demo_platform_def)

lemma demo_decode: "decode demo_platform bs = binary_of_bytes bs []"
  by (simp add: demo_platform_def)



lemma demo_hashPassword:
  "hashPassword demo_platform password (Some s) w =
     (Inr (password @ binary_of_bytes s [], binary_of_bytes s []), w)"
  by (simp add: hashPassword_def demo_deriveKey demo_exportKey demo_bufferToBase64
      binary_of_bytes_app binary_bytes_roundtrip)

lemma demo_verifyPassword:
  "verifyPassword demo_platform password h (Some s64) w = (Inr (Some (password @ s64) = h), w)"
  by (simp add: verifyPassword_def demo_base64ToBuffer demo_hashPassword String_of_def
      binary_bytes_roundtrip)

lemma demo_decryptData:
  "decryptData demo_platform (Some e) (Some iv) password (Some s64) =
     (if take (length password + length s64 + length iv) e = password @ s64 @ iv
      then Inr (drop (length password + length s64 + length iv) e) else Inl OperationError)"
  by (simp add: decryptData_def demo_base64ToBuffer demo_deriveKey String_of_def demo_decrypt
      demo_decode bytes_of_binary_length bytes_of_binary_take bytes_of_binary_drop
      binary_bytes_roundtrip bytes_of_binary_inj add.assoc
      flip: bytes_of_binary_app)

lemma fromCharCode_salt:
  "fromCharCode 115 = CHR ''s''" "fromCharCode 97 = CHR ''a''"
  "fromCharCode 108 = CHR ''l''" "fromCharCode 116 = CHR ''t''"
  by code_simp+

lemma lockedout_fields:
  "getAuthData lockedout_world = Some lockedout_record"
  "lockoutUntil lockedout_record = Some 20000"
  "clock lockedout_world = (\<lambda>n. 1000 * n)"
  "clock_reads lockedout_world = 0"
  by (simp_all add: getAuthData_def lockedout_world_def world_with_def blank_world_def
      lockedout_record_def)

lemma account_fields:
  "getAuthData account_world = Some demo_record"
  "lockoutUntil demo_record = None"
  "passwordHash demo_record = Some ''hunter22salt''"
  "salt demo_record = Some ''salt''"
  by (simp_all add: getAuthData_def account_world_def world_with_def blank_world_def
      demo_record_def)

lemma demo_record_fields:
  "passwordHash demo_record = Some ''hunter22salt''"
  "salt demo_record = Some ''salt''"
  "encryptedApiKey demo_record = Some ''hunter22saltnoncesk-abc123''"
  "apiKeyIV demo_record = Some ''nonce''"
  "biometricEnabled demo_record"
  "biometricCredentialId demo_record = Some ''cred''"
  "failedAttempts demo_record = Some 0"
  "lockoutUntil demo_record = None"
  by (simp_all add: demo_record_def)

lemma world_with_fields:
  "getAuthData (world_with a) = Some a"
  "db_auth (world_with a) = Some a"
  "clock (world_with a) = (\<lambda>n. 1000 * n)"
  "clock_reads (world_with a) = 0"
  "console (world_with a) = []"
  "sessionStorage (world_with a) = None"
  "decryptedApiKey (world_with a) = None"
  "currentPassword (world_with a) = None"
  "isAuthenticated (authState (world_with a)) = False"
  "needsSetup (authState (world_with a)) = False"
  by (simp_all add: getAuthData_def world_with_def blank_world_def)

lemma corrupt_record_fields:
  "passwordHash corrupt_record = Some ''hunter22salt''"
  "salt corrupt_record = Some ''salt''"
  "encryptedApiKey corrupt_record = Some ''garbage''"
  "apiKeyIV corrupt_record = Some ''nonce''"
  "lockoutUntil corrupt_record = None"
  by (simp_all add: corrupt_record_def demo_record_def)

subsection \<open>Encryption and decryption\<close>



subsection \<open>Key derivation\<close>

text \<open>
  Claim C9, as the code has it. \<^verbatim>\<open>deriveKey\<close> and \<^verbatim>\<open>hashPassword\<close> do not inspect the
  password or the salt: they hand both to the platform and produce key material exactly
  when the platform's import, derivation and export calls succeed, whatever the length of
  either input.
\<close>

theorem key_derivation_unvalidated:
  "(deriveKey P password saltBytes usage = Inr k) =
     (\<exists>km. subtle_importKey P (encode P password) = Inr km \<and>
           subtle_deriveKey P saltBytes PBKDF2_ITERATIONS km (derived_alg usage) = Inr k) \<and>
   (fst (hashPassword P password (Some saltBytes) w) = Inr hs) =
     (\<exists>key raw. deriveKey P password saltBytes ''hash'' = Inr key \<and>
           subtle_exportKey P key = Inr raw \<and>
           hs = (bufferToBase64 P raw, bufferToBase64 P saltBytes))"
  by (auto simp: deriveKey_def hashPassword_def split: sum.splits)

text \<open>
  The claim as stated asks for an \<^verbatim>\<open>InvalidInput\<close> failure on an empty password or a salt
  that is not 16 bytes long. On the demonstration platform an empty password with a
  four-byte salt yields a key and a hash.
\<close>

theorem key_derivation_invalid_input_counterexample:
  "deriveKey demo_platform [] [115, 97, 108, 116] ''hash'' = Inr [115, 97, 108, 116] \<and>
   hashPassword demo_platform [] (Some [115, 97, 108, 116]) blank_world =
     (Inr (''salt'', ''salt''), blank_world)"
  by (simp add: demo_hashPassword demo_deriveKey fromCharCode_salt)

section \<open>Properties of the login path\<close>

lemma lockout_active_iff:
  "fst (lockout_active a w) =
     (\<exists>until. lockoutUntil a = Some until \<and> int (clock w (clock_reads w)) < until)"
  by (auto simp: lockout_active_def truthy_num_def Date_now_def split: option.splits)

lemma lockout_active_world:
  "snd (lockout_active a w) =
     (if truthy_num (lockoutUntil a) then w\<lparr>clock_reads := Suc (clock_reads w)\<rparr> else w)"
  by (simp add: lockout_active_def Date_now_def)

lemma login_while_locked:
  assumes "getAuthData w = Some a"
      and "lockoutUntil a = Some until" and "int (clock w (clock_reads w)) < until"
  shows "loginWithPassword P password w =
           (failed_locked (TooManyAttempts
              (ceil_div (until - int (clock w (Suc (clock_reads w)))) 1000)),
            w\<lparr>clock_reads := Suc (Suc (clock_reads w))\<rparr>)"
proof -
  have "lockout_active a w = (True, w\<lparr>clock_reads := Suc (clock_reads w)\<rparr>)"
    using assms by (auto simp: lockout_active_def truthy_num_def Date_now_def)
  then show ?thesis
    using assms by (simp add: loginWithPassword_def Date_now_def)
qed

text \<open>
  Claim C1. With a stored record whose \<open>lockoutUntil\<close> is set and later than the clock
  reading of the call, \<^verbatim>\<open>loginWithPassword\<close> returns the locked outcome with the remaining
  seconds (rounded up, from a second clock reading) and only advances the clock; the
  outcome is the same for every password and every platform, so no key derivation or
  verification enters it. Otherwise (no \<open>lockoutUntil\<close>, or one not later than the clock
  reading) the attempt is evaluated: the call succeeds exactly when the password verifies.
\<close>

theorem login_lockout_gate:
  assumes "getAuthData w = Some a"
  shows "((\<exists>until. lockoutUntil a = Some until \<and> int (clock w (clock_reads w)) < until) \<longrightarrow>
            loginWithPassword P password w =
              (failed_locked (TooManyAttempts
                 (ceil_div (the (lockoutUntil a) - int (clock w (Suc (clock_reads w)))) 1000)),
               w\<lparr>clock_reads := Suc (Suc (clock_reads w))\<rparr>)
            \<and> loginWithPassword P' password' w = loginWithPassword P password w)
       \<and> (\<not> (\<exists>until. lockoutUntil a = Some until \<and> int (clock w (clock_reads w)) < until) \<longrightarrow>
            success (fst (loginWithPassword P password w)) =
              (fst (verifyPassword P password (passwordHash a) (salt a) w) = Inr True))"
proof (intro conjI impI)
  assume "\<exists>until. lockoutUntil a = Some until \<and> int (clock w (clock_reads w)) < until"
  then obtain until where u: "lockoutUntil a = Some until" "int (clock w (clock_reads w)) < until"
    by blast
  show "loginWithPassword P password w =
              (failed_locked (TooManyAttempts
                 (ceil_div (the (lockoutUntil a) - int (clock w (Suc (clock_reads w)))) 1000)),
               w\<lparr>clock_reads := Suc (Suc (clock_reads w))\<rparr>)"
    using login_while_locked [OF assms u, of P password] u by simp
  show "loginWithPassword P' password' w = loginWithPassword P password w"
    by (simp add: login_while_locked [OF assms u])
next
  assume nact: "\<not> (\<exists>until. lockoutUntil a = Some until \<and> int (clock w (clock_reads w)) < until)"
  obtain w1 where la: "lockout_active a w = (False, w1)"
    using nact lockout_active_iff [of a w] by (cases "lockout_active a w") auto
  obtain v where v: "fst (verifyPassword P password (passwordHash a) (salt a) w) = v" by simp
  have vw: "verifyPassword P password (passwordHash a) (salt a) w1 = (v, w1)"
    using v by (rule verifyPassword_eq)
  show "success (fst (loginWithPassword P password w)) =
              (fst (verifyPassword P password (passwordHash a) (salt a) w) = Inr True)"
    using assms
    by (cases v; cases "projr v")
       (simp_all add: loginWithPassword_def la vw v failed_def failed_locked_def succeeded_def
          Let_def split: prod.splits sum.splits bool.splits)
qed

theorem login_lockout_gate_witness:
  "loginWithPassword demo_platform ''hunter22'' lockedout_world =
     (failed_locked (TooManyAttempts 19), lockedout_world\<lparr>clock_reads := 2\<rparr>) \<and>
   loginWithPassword demo_platform ''wrong'' lockedout_world =
     loginWithPassword demo_platform ''hunter22'' lockedout_world \<and>
   success (fst (loginWithPassword demo_platform ''hunter22'' account_world)) \<and>
   \<not> success (fst (loginWithPassword demo_platform ''wrong'' account_world))"
proof -
  have a: "\<exists>until. lockoutUntil lockedout_record = Some until \<and>
      int (clock lockedout_world (clock_reads lockedout_world)) < until"
    by (simp add: lockedout_fields)
  have b: "\<not> (\<exists>until. lockoutUntil demo_record = Some until \<and>
      int (clock account_world (clock_reads account_world)) < until)"
    by (simp add: account_fields)
  show ?thesis
    using login_lockout_gate [OF lockedout_fields(1), of demo_platform "''hunter22''" demo_platform "''wrong''"] a
      login_lockout_gate [OF account_fields(1), of demo_platform "''hunter22''"]
      login_lockout_gate [OF account_fields(1), of demo_platform "''wrong''"] b
    by (simp add: lockedout_fields account_fields demo_verifyPassword ceil_div_def numeral_2_eq_2)
qed


subsection \<open>Failed attempts\<close>

lemma login_wrong_password:
  assumes rec: "getAuthData w = Some a"
      and nl: "lockout_active a w = (False, w1)"
      and wrong: "fst (verifyPassword P password (passwordHash a) (salt a) w) = Inr False"
  shows "loginWithPassword P password w =
     (let n = (case failedAttempts a of None \<Rightarrow> 0 | Some k \<Rightarrow> k) + 1;
          now = int (clock w1 (clock_reads w1)) in
      if n \<ge> MAX_FAILED_ATTEMPTS
      then (failed_locked (TooManyAttempts 30),
            w1\<lparr>clock_reads := Suc (clock_reads w1),
               db_auth := Some (a\<lparr>failedAttempts := Some 0,
                                    lockoutUntil := Some (now + LOCKOUT_DURATION)\<rparr>)\<rparr>)
      else (failed (InvalidPasswordRemaining (MAX_FAILED_ATTEMPTS - n)),
            w1\<lparr>db_auth := Some (a\<lparr>failedAttempts := Some n\<rparr>)\<rparr>))"
proof -
  have vw: "verifyPassword P password (passwordHash a) (salt a) w1 = (Inr False, w1)"
    using wrong by (rule verifyPassword_eq)
  show ?thesis
    by (simp add: loginWithPassword_def rec nl vw Let_def Date_now_def setAuthData_def
        LOCKOUT_DURATION_def)
qed

lemma login_first_failures:
  assumes rec: "getAuthData w = Some a"
      and nolock: "lockoutUntil a = None"
      and count: "failedAttempts a = Some k" and few: "k + 1 < MAX_FAILED_ATTEMPTS"
      and wrong: "fst (verifyPassword P password (passwordHash a) (salt a) w) = Inr False"
  shows "loginWithPassword P password w =
           (failed (InvalidPasswordRemaining (MAX_FAILED_ATTEMPTS - (k + 1))),
            w\<lparr>db_auth := Some (a\<lparr>failedAttempts := Some (k + 1)\<rparr>)\<rparr>)"
proof -
  have nl: "lockout_active a w = (False, w)"
    by (simp add: lockout_active_def nolock truthy_num_def)
  show ?thesis
    using login_wrong_password [OF rec nl wrong] few by (simp add: count Let_def)
qed

lemma login_fifth_failure:
  assumes rec: "getAuthData w = Some a"
      and nolock: "lockoutUntil a = None"
      and count: "failedAttempts a = Some k" and many: "MAX_FAILED_ATTEMPTS \<le> k + 1"
      and wrong: "fst (verifyPassword P password (passwordHash a) (salt a) w) = Inr False"
  shows "loginWithPassword P password w =
           (failed_locked (TooManyAttempts 30),
            w\<lparr>clock_reads := Suc (clock_reads w),
              db_auth := Some (a\<lparr>failedAttempts := Some 0,
                lockoutUntil := Some (int (clock w (clock_reads w)) + LOCKOUT_DURATION)\<rparr>)\<rparr>)"
proof -
  have nl: "lockout_active a w = (False, w)"
    by (simp add: lockout_active_def nolock truthy_num_def)
  show ?thesis
    using login_wrong_password [OF rec nl wrong] many by (simp add: count Let_def)
qed

lemma five_failures_lock:
  assumes rec: "getAuthData w = Some a"
      and fresh: "failedAttempts a = Some 0" "lockoutUntil a = None"
      and five: "length pws = 5"
      and wrong: "\<forall>pw\<in>set pws. fst (verifyPassword P pw (passwordHash a) (salt a) w) = Inr False"
      and soon: "int (clock w (Suc (clock_reads w))) < int (clock w (clock_reads w)) + LOCKOUT_DURATION"
  shows "fst (login_attempts P pws w) =
           [failed (InvalidPasswordRemaining 4), failed (InvalidPasswordRemaining 3),
            failed (InvalidPasswordRemaining 2), failed (InvalidPasswordRemaining 1),
            failed_locked (TooManyAttempts 30)]"
    and "fst (loginWithPassword P pw6 (snd (login_attempts P pws w))) =
           failed_locked (TooManyAttempts (ceil_div
             (int (clock w (clock_reads w)) + LOCKOUT_DURATION
                - int (clock w (Suc (Suc (clock_reads w))))) 1000))"
proof -
  from five obtain p1 p2 p3 p4 p5 where pws: "pws = [p1, p2, p3, p4, p5]"
    by (cases pws; simp; rename_tac x xs; case_tac xs; simp; rename_tac y ys; case_tac ys; simp;
        rename_tac z zs; case_tac zs; simp; rename_tac u us; case_tac us; simp)
  define a1 where "a1 = a\<lparr>failedAttempts := Some 1\<rparr>"
  define a2 where "a2 = a\<lparr>failedAttempts := Some 2\<rparr>"
  define a3 where "a3 = a\<lparr>failedAttempts := Some 3\<rparr>"
  define a4 where "a4 = a\<lparr>failedAttempts := Some 4\<rparr>"
  define a5 where "a5 = a\<lparr>failedAttempts := Some 0,
     lockoutUntil := Some (int (clock w (clock_reads w)) + LOCKOUT_DURATION)\<rparr>"
  define w1 where "w1 = w\<lparr>db_auth := Some a1\<rparr>"
  define w2 where "w2 = w\<lparr>db_auth := Some a2\<rparr>"
  define w3 where "w3 = w\<lparr>db_auth := Some a3\<rparr>"
  define w4 where "w4 = w\<lparr>db_auth := Some a4\<rparr>"
  define w5 where "w5 = w\<lparr>clock_reads := Suc (clock_reads w), db_auth := Some a5\<rparr>"
  have wr: "\<And>p u. p \<in> set pws \<Longrightarrow> verifyPassword P p (passwordHash a) (salt a) u = (Inr False, u)"
    using wrong verifyPassword_eq by blast
  have s1: "loginWithPassword P p1 w = (failed (InvalidPasswordRemaining 4), w1)"
    using login_first_failures [OF rec fresh(2) fresh(1), of P p1] wr [of p1 w]
    by (simp add: pws MAX_FAILED_ATTEMPTS_def w1_def a1_def)
  have s2: "loginWithPassword P p2 w1 = (failed (InvalidPasswordRemaining 3), w2)"
    using login_first_failures [of w1 a1 1 P p2] wr [of p2 w1] fresh
    by (simp add: pws MAX_FAILED_ATTEMPTS_def w1_def a1_def w2_def a2_def getAuthData_def)
  have s3: "loginWithPassword P p3 w2 = (failed (InvalidPasswordRemaining 2), w3)"
    using login_first_failures [of w2 a2 2 P p3] wr [of p3 w2] fresh
    by (simp add: pws MAX_FAILED_ATTEMPTS_def w2_def a2_def w3_def a3_def getAuthData_def)
  have s4: "loginWithPassword P p4 w3 = (failed (InvalidPasswordRemaining 1), w4)"
    using login_first_failures [of w3 a3 3 P p4] wr [of p4 w3] fresh
    by (simp add: pws MAX_FAILED_ATTEMPTS_def w3_def a3_def w4_def a4_def getAuthData_def)
  have s5: "loginWithPassword P p5 w4 = (failed_locked (TooManyAttempts 30), w5)"
    using login_fifth_failure [of w4 a4 4 P p5] wr [of p5 w4] fresh
    by (simp add: pws MAX_FAILED_ATTEMPTS_def w4_def a4_def w5_def a5_def getAuthData_def)
  have run: "login_attempts P pws w =
     ([failed (InvalidPasswordRemaining 4), failed (InvalidPasswordRemaining 3),
       failed (InvalidPasswordRemaining 2), failed (InvalidPasswordRemaining 1),
       failed_locked (TooManyAttempts 30)], w5)"
    by (simp add: pws s1 s2 s3 s4 s5)
  show "fst (login_attempts P pws w) =
           [failed (InvalidPasswordRemaining 4), failed (InvalidPasswordRemaining 3),
            failed (InvalidPasswordRemaining 2), failed (InvalidPasswordRemaining 1),
            failed_locked (TooManyAttempts 30)]"
    by (simp add: run)
  have "loginWithPassword P pw6 w5 =
           (failed_locked (TooManyAttempts (ceil_div
              (int (clock w (clock_reads w)) + LOCKOUT_DURATION
                 - int (clock w5 (Suc (clock_reads w5)))) 1000)),
            w5\<lparr>clock_reads := Suc (Suc (clock_reads w5))\<rparr>)"
    using soon
    by (intro login_while_locked [where a = a5]) (simp_all add: w5_def a5_def getAuthData_def)
  then show "fst (loginWithPassword P pw6 (snd (login_attempts P pws w))) =
           failed_locked (TooManyAttempts (ceil_div
             (int (clock w (clock_reads w)) + LOCKOUT_DURATION
                - int (clock w (Suc (Suc (clock_reads w))))) 1000))"
    by (simp add: run w5_def)
qed

lemma not_locked_state:
  assumes "\<not> (\<exists>until. lockoutUntil a = Some until \<and> int (clock w (clock_reads w)) < until)"
  shows "lockout_active a w = (False, snd (lockout_active a w))"
  using assms lockout_active_iff [of a w] by (cases "lockout_active a w") simp


text \<open>
  Claim C2. A wrong password on an attempt that is not refused by lockout adds one to
  \<open>failedAttempts\<close> (an absent counter counts as 0). If the new count reaches 5, the
  record gets \<open>lockoutUntil = now + 30000\<close> (\<open>now\<close> being the clock reading taken at that
  moment) and \<open>failedAttempts = 0\<close>, and the locked outcome is returned; otherwise the
  count is stored and the outcome reports \<open>5 - count\<close> attempts remaining. Starting from
  a reset record, five wrong passwords in a row give the outcomes 4, 3, 2, 1 remaining
  and then locked, and a sixth attempt whose clock reading falls within the 30 seconds
  is refused as locked whatever its password.
\<close>

theorem failed_login_counts_and_locks:
  "(getAuthData w = Some a \<and>
    \<not> (\<exists>until. lockoutUntil a = Some until \<and> int (clock w (clock_reads w)) < until) \<and>
    fst (verifyPassword P password (passwordHash a) (salt a) w) = Inr False \<longrightarrow>
      (let w1 = snd (lockout_active a w);
           n = (case failedAttempts a of None \<Rightarrow> 0 | Some k \<Rightarrow> k) + 1;
           now = int (clock w1 (clock_reads w1)) in
       if n \<ge> MAX_FAILED_ATTEMPTS
       then loginWithPassword P password w =
              (failed_locked (TooManyAttempts 30),
               w1\<lparr>clock_reads := Suc (clock_reads w1),
                  db_auth := Some (a\<lparr>failedAttempts := Some 0,
                                       lockoutUntil := Some (now + LOCKOUT_DURATION)\<rparr>)\<rparr>)
       else loginWithPassword P password w =
              (failed (InvalidPasswordRemaining (MAX_FAILED_ATTEMPTS - n)),
               w1\<lparr>db_auth := Some (a\<lparr>failedAttempts := Some n\<rparr>)\<rparr>))) \<and>
   (getAuthData w = Some a \<and> failedAttempts a = Some 0 \<and> lockoutUntil a = None \<and>
    length pws = 5 \<and>
    (\<forall>pw\<in>set pws. fst (verifyPassword P pw (passwordHash a) (salt a) w) = Inr False) \<and>
    int (clock w (Suc (clock_reads w))) < int (clock w (clock_reads w)) + LOCKOUT_DURATION \<longrightarrow>
      fst (login_attempts P pws w) =
        [failed (InvalidPasswordRemaining 4), failed (InvalidPasswordRemaining 3),
         failed (InvalidPasswordRemaining 2), failed (InvalidPasswordRemaining 1),
         failed_locked (TooManyAttempts 30)] \<and>
      fst (loginWithPassword P pw6 (snd (login_attempts P pws w))) =
        failed_locked (TooManyAttempts (ceil_div
          (int (clock w (clock_reads w)) + LOCKOUT_DURATION
             - int (clock w (Suc (Suc (clock_reads w))))) 1000)))"
proof (intro conjI impI)
  assume h: "getAuthData w = Some a \<and>
    \<not> (\<exists>until. lockoutUntil a = Some until \<and> int (clock w (clock_reads w)) < until) \<and>
    fst (verifyPassword P password (passwordHash a) (salt a) w) = Inr False"
  then have nl: "lockout_active a w = (False, snd (lockout_active a w))"
    using not_locked_state by blast
  show "let w1 = snd (lockout_active a w);
           n = (case failedAttempts a of None \<Rightarrow> 0 | Some k \<Rightarrow> k) + 1;
           now = int (clock w1 (clock_reads w1)) in
       if n \<ge> MAX_FAILED_ATTEMPTS
       then loginWithPassword P password w =
              (failed_locked (TooManyAttempts 30),
               w1\<lparr>clock_reads := Suc (clock_reads w1),
                  db_auth := Some (a\<lparr>failedAttempts := Some 0,
                                       lockoutUntil := Some (now + LOCKOUT_DURATION)\<rparr>)\<rparr>)
       else loginWithPassword P password w =
              (failed (InvalidPasswordRemaining (MAX_FAILED_ATTEMPTS - n)),
               w1\<lparr>db_auth := Some (a\<lparr>failedAttempts := Some n\<rparr>)\<rparr>)"
    using login_wrong_password [OF _ nl, of P password] h by (simp add: Let_def)
next
  assume h: "getAuthData w = Some a \<and> failedAttempts a = Some 0 \<and> lockoutUntil a = None \<and>
    length pws = 5 \<and>
    (\<forall>pw\<in>set pws. fst (verifyPassword P pw (passwordHash a) (salt a) w) = Inr False) \<and>
    int (clock w (Suc (clock_reads w))) < int (clock w (clock_reads w)) + LOCKOUT_DURATION"
  then show "fst (login_attempts P pws w) =
        [failed (InvalidPasswordRemaining 4), failed (InvalidPasswordRemaining 3),
         failed (InvalidPasswordRemaining 2), failed (InvalidPasswordRemaining 1),
         failed_locked (TooManyAttempts 30)]"
    using five_failures_lock(1) [of w a pws P] by blast
  from h show "fst (loginWithPassword P pw6 (snd (login_attempts P pws w))) =
        failed_locked (TooManyAttempts (ceil_div
          (int (clock w (clock_reads w)) + LOCKOUT_DURATION
             - int (clock w (Suc (Suc (clock_reads w))))) 1000))"
    using five_failures_lock(2) [of w a pws P pw6] by blast
qed


theorem failed_login_counts_and_locks_witness:
  "loginWithPassword demo_platform ''wrong'' account_world =
     (failed (InvalidPasswordRemaining 4),
      account_world\<lparr>db_auth := Some (demo_record\<lparr>failedAttempts := Some 1\<rparr>)\<rparr>) \<and>
   fst (login_attempts demo_platform [''a'', ''b'', ''c'', ''d'', ''e''] account_world) =
     [failed (InvalidPasswordRemaining 4), failed (InvalidPasswordRemaining 3),
      failed (InvalidPasswordRemaining 2), failed (InvalidPasswordRemaining 1),
      failed_locked (TooManyAttempts 30)] \<and>
   fst (loginWithPassword demo_platform ''hunter22''
          (snd (login_attempts demo_platform [''a'', ''b'', ''c'', ''d'', ''e''] account_world))) =
     failed_locked (TooManyAttempts 28)"
  using failed_login_counts_and_locks [of account_world demo_record demo_platform "''wrong''"
          "[''a'', ''b'', ''c'', ''d'', ''e'']" "''hunter22''"]
  by (simp add: account_world_def world_with_fields demo_record_fields demo_verifyPassword
      lockout_active_def truthy_num_def MAX_FAILED_ATTEMPTS_def LOCKOUT_DURATION_def
      ceil_div_def)


text \<open>
  Claim C10. A wrong password on an attempt that is not refused by lockout changes, in
  the persisted record, at most \<open>failedAttempts\<close> and \<open>lockoutUntil\<close>; the other eight
  fields keep their values, and the session entry, the authentication state, the
  decrypted secret and the held password are untouched.
\<close>

theorem failed_login_frame:
  assumes rec: "getAuthData w = Some a"
      and nl: "\<not> (\<exists>until. lockoutUntil a = Some until \<and> int (clock w (clock_reads w)) < until)"
      and wrong: "fst (verifyPassword P password (passwordHash a) (salt a) w) = Inr False"
      and call: "loginWithPassword P password w = (r, w')"
  shows "db_auth w' =
           Some (a\<lparr>failedAttempts := failedAttempts (the (db_auth w')),
                   lockoutUntil := lockoutUntil (the (db_auth w'))\<rparr>) \<and>
         passwordHash (the (db_auth w')) = passwordHash a \<and>
         salt (the (db_auth w')) = salt a \<and>
         encryptedApiKey (the (db_auth w')) = encryptedApiKey a \<and>
         apiKeyIV (the (db_auth w')) = apiKeyIV a \<and>
         biometricEnabled (the (db_auth w')) = biometricEnabled a \<and>
         biometricCredentialId (the (db_auth w')) = biometricCredentialId a \<and>
         createdAt (the (db_auth w')) = createdAt a \<and>
         targetCalories (the (db_auth w')) = targetCalories a \<and>
         sessionStorage w' = sessionStorage w \<and> authState w' = authState w \<and>
         decryptedApiKey w' = decryptedApiKey w \<and> currentPassword w' = currentPassword w \<and>
         \<not> success r"
proof -
  have nl': "lockout_active a w = (False, snd (lockout_active a w))"
    using nl by (rule not_locked_state)
  have w1: "snd (lockout_active a w) = w \<or>
            snd (lockout_active a w) = w\<lparr>clock_reads := Suc (clock_reads w)\<rparr>"
    by (simp add: lockout_active_world)
  show ?thesis
    using login_wrong_password [OF rec nl' wrong] call w1
    by (auto simp: Let_def failed_def failed_locked_def split: if_splits)
qed


theorem failed_login_frame_witness:
  "db_auth (snd (loginWithPassword demo_platform ''wrong'' account_world)) =
     Some (demo_record\<lparr>failedAttempts := failedAttempts (the (db_auth
              (snd (loginWithPassword demo_platform ''wrong'' account_world)))),
            lockoutUntil := lockoutUntil (the (db_auth
              (snd (loginWithPassword demo_platform ''wrong'' account_world))))\<rparr>) \<and>
   passwordHash (the (db_auth (snd (loginWithPassword demo_platform ''wrong'' account_world)))) =
     Some ''hunter22salt'' \<and>
   sessionStorage (snd (loginWithPassword demo_platform ''wrong'' account_world)) = None \<and>
   \<not> isAuthenticated (authState (snd (loginWithPassword demo_platform ''wrong'' account_world))) \<and>
   \<not> success (fst (loginWithPassword demo_platform ''wrong'' account_world))"
  using failed_login_frame [of account_world demo_record demo_platform "''wrong''"
          "fst (loginWithPassword demo_platform ''wrong'' account_world)"
          "snd (loginWithPassword demo_platform ''wrong'' account_world)"]
  by (simp add: account_world_def world_with_fields demo_record_fields demo_verifyPassword)


subsection \<open>A secret that does not decrypt\<close>

lemma lockout_active_frame:
  "console (snd (lockout_active a w)) = console w"
  "clock (snd (lockout_active a w)) = clock w"
  "db_auth (snd (lockout_active a w)) = db_auth w"
  "sessionStorage (snd (lockout_active a w)) = sessionStorage w"
  "authState (snd (lockout_active a w)) = authState w"
  "decryptedApiKey (snd (lockout_active a w)) = decryptedApiKey w"
  "currentPassword (snd (lockout_active a w)) = currentPassword w"
  by (simp_all add: lockout_active_world)

lemma login_with_broken_secret:
  assumes rec: "getAuthData w = Some a"
      and nl: "lockout_active a w = (False, w1)"
      and right: "fst (verifyPassword P password (passwordHash a) (salt a) w) = Inr True"
      and stored: "truthy_str (encryptedApiKey a)" "truthy_str (apiKeyIV a)"
      and broken: "decryptData P (encryptedApiKey a) (apiKeyIV a) password (salt a) = Inl e"
  shows "loginWithPassword P password w =
     (succeeded,
      w1\<lparr>db_auth := Some (a\<lparr>failedAttempts := Some 0, lockoutUntil := None\<rparr>),
        console := console w1 @ [(''Failed to decrypt API key:'', e)],
        clock_reads := Suc (clock_reads w1),
        sessionStorage := Some (int (clock w1 (clock_reads w1)) + SESSION_TIMEOUT),
        currentPassword := Some password,
        decryptedApiKey := None,
        authState := authenticated_state (Some a)\<rparr>)"
proof -
  have vw: "verifyPassword P password (passwordHash a) (salt a) w1 = (Inr True, w1)"
    using right by (rule verifyPassword_eq)
  show ?thesis
    by (simp add: loginWithPassword_def rec nl vw stored broken Let_def
        setAuthData_def console_error_def Date_now_def)
qed


text \<open>
  Claim C8. When the password verifies, a secret is stored and its decryption throws,
  \<^verbatim>\<open>loginWithPassword\<close> still succeeds: the exception is written to the console, the
  decrypted secret stays empty, the attempt state is reset, a session entry is written and
  the state becomes authenticated.
\<close>

theorem login_survives_decrypt_failure:
  assumes rec: "getAuthData w = Some a"
      and nl: "\<not> (\<exists>until. lockoutUntil a = Some until \<and> int (clock w (clock_reads w)) < until)"
      and right: "fst (verifyPassword P password (passwordHash a) (salt a) w) = Inr True"
      and stored: "truthy_str (encryptedApiKey a)" "truthy_str (apiKeyIV a)"
      and broken: "decryptData P (encryptedApiKey a) (apiKeyIV a) password (salt a) = Inl e"
      and call: "loginWithPassword P password w = (r, w')"
  shows "r = succeeded \<and>
         decryptedApiKey w' = None \<and>
         console w' = console w @ [(''Failed to decrypt API key:'', e)] \<and>
         isAuthenticated (authState w') \<and> \<not> needsSetup (authState w') \<and>
         sessionStorage w' =
           Some (int (clock w (clock_reads (snd (lockout_active a w)))) + SESSION_TIMEOUT) \<and>
         currentPassword w' = Some password \<and>
         db_auth w' = Some (a\<lparr>failedAttempts := Some 0, lockoutUntil := None\<rparr>)"
proof -
  have nl': "lockout_active a w = (False, snd (lockout_active a w))"
    using nl by (rule not_locked_state)
  show ?thesis
    using login_with_broken_secret [OF rec nl' right stored broken] call
    by (simp add: authenticated_state_def lockout_active_frame)
qed

theorem login_survives_decrypt_failure_witness:
  "fst (loginWithPassword demo_platform ''hunter22'' corrupt_world) = succeeded \<and>
   decryptedApiKey (snd (loginWithPassword demo_platform ''hunter22'' corrupt_world)) = None \<and>
   console (snd (loginWithPassword demo_platform ''hunter22'' corrupt_world)) =
     [(''Failed to decrypt API key:'', OperationError)] \<and>
   isAuthenticated (authState (snd (loginWithPassword demo_platform ''hunter22'' corrupt_world))) \<and>
   sessionStorage (snd (loginWithPassword demo_platform ''hunter22'' corrupt_world)) =
     Some 1800000"
  using login_survives_decrypt_failure [of corrupt_world corrupt_record demo_platform
          "''hunter22''" OperationError
          "fst (loginWithPassword demo_platform ''hunter22'' corrupt_world)"
          "snd (loginWithPassword demo_platform ''hunter22'' corrupt_world)"]
  by (simp add: corrupt_world_def world_with_fields corrupt_record_fields demo_verifyPassword
      demo_decryptData truthy_str_def lockout_active_def truthy_num_def SESSION_TIMEOUT_def)


section \<open>Properties of account setup\<close>

lemma generateSalt_eq:
  "generateSalt w = (map (entropy w) [entropy_used w ..< entropy_used w + 16],
                     w\<lparr>entropy_used := entropy_used w + 16\<rparr>)"
  by (simp add: generateSalt_def getRandomValues_def SALT_LENGTH_def)

lemma hashPassword_fresh_salt_world:
  "snd (hashPassword P password None w) = w\<lparr>entropy_used := entropy_used w + 16\<rparr>"
  by (simp add: hashPassword_def generateSalt_eq split: sum.splits)

lemma demo_hashPassword_fresh:
  "hashPassword demo_platform password None (world_with a) =
     (Inr (password @ binary_of_bytes (replicate 16 7) [], binary_of_bytes (replicate 16 7) []),
      (world_with a)\<lparr>entropy_used := 16\<rparr>)"
  by (simp add: hashPassword_def generateSalt_eq world_with_def blank_world_def
      map_replicate_const demo_deriveKey demo_exportKey demo_bufferToBase64
      binary_of_bytes_app binary_bytes_roundtrip)

lemma rejecting_hashPassword_fresh:
  "hashPassword rejecting_platform password None (world_with a) =
     (Inl OperationError, (world_with a)\<lparr>entropy_used := 16\<rparr>)"
  by (simp add: hashPassword_def generateSalt_eq world_with_def blank_world_def
      deriveKey_def rejecting_platform_def)

lemma demo_setupAccount:
  "setupAccount demo_platform password target (world_with a) =
     (succeeded,
      (world_with a)\<lparr>entropy_used := 16, clock_reads := 2,
        db_auth := Some \<lparr>passwordHash = Some (password @ binary_of_bytes (replicate 16 7) []),
              salt = Some (binary_of_bytes (replicate 16 7) []), encryptedApiKey = None,
              apiKeyIV = None, biometricEnabled = False, biometricCredentialId = None,
              failedAttempts = Some 0, lockoutUntil = None, createdAt = Some 0,
              targetCalories = Some (case target of None \<Rightarrow> 2000 | Some t \<Rightarrow> t)\<rparr>,
        sessionStorage := Some 1801000,
        currentPassword := Some password,
        authState := authenticated_state (Some \<lparr>passwordHash = Some (password @ binary_of_bytes (replicate 16 7) []),
              salt = Some (binary_of_bytes (replicate 16 7) []), encryptedApiKey = None,
              apiKeyIV = None, biometricEnabled = False, biometricCredentialId = None,
              failedAttempts = Some 0, lockoutUntil = None, createdAt = Some 0,
              targetCalories = Some (case target of None \<Rightarrow> 2000 | Some t \<Rightarrow> t)\<rparr>)\<rparr>)"
  by (simp add: setupAccount_def demo_hashPassword_fresh Let_def Date_now_def setAuthData_def
      SESSION_TIMEOUT_def) (simp add: world_with_def blank_world_def)

text \<open>
  Claim C6, as the code has it. \<^verbatim>\<open>setupAccount\<close> never looks at the stored record. When
  hashing the password succeeds it returns success, stores a fresh record (in place of
  whatever was stored), writes a session entry, keeps the password in memory and sets the
  state to authenticated. When hashing throws it reports the exception and leaves the
  stored record, the session entry and the authentication state as they were.
\<close>

theorem setupAccount_overwrites:
  "(hashPassword P password None w = (Inr (h, s), w1) \<longrightarrow>
      fst (setupAccount P password target w) = succeeded \<and>
      db_auth (snd (setupAccount P password target w)) =
        Some \<lparr>passwordHash = Some h, salt = Some s, encryptedApiKey = None, apiKeyIV = None,
              biometricEnabled = False, biometricCredentialId = None,
              failedAttempts = Some 0, lockoutUntil = None,
              createdAt = Some (int (clock w (clock_reads w))),
              targetCalories = Some (case target of None \<Rightarrow> 2000 | Some t \<Rightarrow> t)\<rparr> \<and>
      isAuthenticated (authState (snd (setupAccount P password target w))) \<and>
      \<not> needsSetup (authState (snd (setupAccount P password target w))) \<and>
      sessionStorage (snd (setupAccount P password target w)) =
        Some (int (clock w (Suc (clock_reads w))) + SESSION_TIMEOUT) \<and>
      currentPassword (snd (setupAccount P password target w)) = Some password) \<and>
   (hashPassword P password None w = (Inl e, w1) \<longrightarrow>
      fst (setupAccount P password target w) = failed (ErrorMessage e) \<and>
      db_auth (snd (setupAccount P password target w)) = db_auth w \<and>
      authState (snd (setupAccount P password target w)) = authState w \<and>
      sessionStorage (snd (setupAccount P password target w)) = sessionStorage w)"
proof (intro conjI impI)
  assume ok: "hashPassword P password None w = (Inr (h, s), w1)"
  have w1: "w1 = w\<lparr>entropy_used := entropy_used w + 16\<rparr>"
    using hashPassword_fresh_salt_world [of P password w] ok by simp
  let ?r = "setupAccount P password target w"
  have r: "?r = (succeeded,
     w1\<lparr>clock_reads := Suc (Suc (clock_reads w1)),
        db_auth := Some \<lparr>passwordHash = Some h, salt = Some s, encryptedApiKey = None,
              apiKeyIV = None, biometricEnabled = False, biometricCredentialId = None,
              failedAttempts = Some 0, lockoutUntil = None,
              createdAt = Some (int (clock w1 (clock_reads w1))),
              targetCalories = Some (case target of None \<Rightarrow> 2000 | Some t \<Rightarrow> t)\<rparr>,
        sessionStorage := Some (int (clock w1 (Suc (clock_reads w1))) + SESSION_TIMEOUT),
        currentPassword := Some password,
        authState := authenticated_state (Some \<lparr>passwordHash = Some h, salt = Some s,
              encryptedApiKey = None,
              apiKeyIV = None, biometricEnabled = False, biometricCredentialId = None,
              failedAttempts = Some 0, lockoutUntil = None,
              createdAt = Some (int (clock w1 (clock_reads w1))),
              targetCalories = Some (case target of None \<Rightarrow> 2000 | Some t \<Rightarrow> t)\<rparr>)\<rparr>)"
    by (simp add: setupAccount_def ok Let_def Date_now_def setAuthData_def)
  show "fst ?r = succeeded" by (simp add: r)
  show "db_auth (snd ?r) =
        Some \<lparr>passwordHash = Some h, salt = Some s, encryptedApiKey = None, apiKeyIV = None,
              biometricEnabled = False, biometricCredentialId = None,
              failedAttempts = Some 0, lockoutUntil = None,
              createdAt = Some (int (clock w (clock_reads w))),
              targetCalories = Some (case target of None \<Rightarrow> 2000 | Some t \<Rightarrow> t)\<rparr>"
    by (simp add: r) (simp add: w1)
  show "isAuthenticated (authState (snd ?r))" by (simp add: r authenticated_state_def)
  show "\<not> needsSetup (authState (snd ?r))" by (simp add: r authenticated_state_def)
  show "sessionStorage (snd ?r) = Some (int (clock w (Suc (clock_reads w))) + SESSION_TIMEOUT)"
    by (simp add: r) (simp add: w1)
  show "currentPassword (snd ?r) = Some password" by (simp add: r)
next
  assume bad: "hashPassword P password None w = (Inl e, w1)"
  have w1: "w1 = w\<lparr>entropy_used := entropy_used w + 16\<rparr>"
    using hashPassword_fresh_salt_world [of P password w] bad by simp
  let ?r = "setupAccount P password target w"
  have r: "?r = (failed (ErrorMessage e), console_error ''Setup error:'' e w1)"
    by (simp add: setupAccount_def bad)
  show "fst ?r = failed (ErrorMessage e)" by (simp add: r)
  show "db_auth (snd ?r) = db_auth w" by (simp add: r console_error_def w1)
  show "authState (snd ?r) = authState w" by (simp add: r console_error_def w1)
  show "sessionStorage (snd ?r) = sessionStorage w" by (simp add: r console_error_def w1)
qed

theorem setupAccount_overwrites_witness:
  "fst (setupAccount demo_platform ''newpass1'' None account_world) = succeeded \<and>
   isAuthenticated (authState (snd (setupAccount demo_platform ''newpass1'' None account_world))) \<and>
   sessionStorage (snd (setupAccount demo_platform ''newpass1'' None account_world)) =
     Some 1801000 \<and>
   failedAttempts (the (db_auth (snd (setupAccount demo_platform ''newpass1'' None account_world)))) =
     Some 0 \<and>
   fst (setupAccount rejecting_platform ''newpass1'' None account_world) =
     failed (ErrorMessage OperationError) \<and>
   db_auth (snd (setupAccount rejecting_platform ''newpass1'' None account_world)) =
     Some demo_record"
  using setupAccount_overwrites [of demo_platform "''newpass1''" account_world
          "''newpass1'' @ binary_of_bytes (replicate 16 7) []"
          "binary_of_bytes (replicate 16 7) []"
          "account_world\<lparr>entropy_used := 16\<rparr>" None]
        setupAccount_overwrites [of rejecting_platform "''newpass1''" account_world
          _ _ "account_world\<lparr>entropy_used := 16\<rparr>" None OperationError]
  by (simp add: account_world_def demo_hashPassword_fresh rejecting_hashPassword_fresh
      world_with_fields SESSION_TIMEOUT_def)

text \<open>
  The claim as stated asks for an \<^verbatim>\<open>AlreadyInitialized\<close> failure that leaves an existing
  record unchanged. Called on the established account, \<^verbatim>\<open>setupAccount\<close> succeeds and the
  stored record is replaced.
\<close>

theorem setupAccount_already_initialized_counterexample:
  "getAuthData account_world = Some demo_record \<and>
   fst (setupAccount demo_platform ''newpass1'' (Some 1800) account_world) = succeeded \<and>
   targetCalories (the (db_auth
     (snd (setupAccount demo_platform ''newpass1'' (Some 1800) account_world)))) = Some 1800 \<and>
   targetCalories demo_record = Some 2000 \<and>
   db_auth (snd (setupAccount demo_platform ''newpass1'' (Some 1800) account_world)) \<noteq>
     db_auth account_world"
  by (simp add: account_world_def demo_setupAccount world_with_fields)
     (simp add: demo_record_def)

section \<open>Properties of the other password-checking operations\<close>

lemma lockedout_record_fields:
  "passwordHash lockedout_record = Some ''hunter22salt''"
  "salt lockedout_record = Some ''salt''"
  "encryptedApiKey lockedout_record = Some ''hunter22saltnoncesk-abc123''"
  "apiKeyIV lockedout_record = Some ''nonce''"
  "lockoutUntil lockedout_record = Some 20000"
  "failedAttempts lockedout_record = Some 0"
  by (simp_all add: lockedout_record_def demo_record_def)

lemma demo_login_lockedout:
  "loginWithPassword demo_platform password lockedout_world =
     (failed_locked (TooManyAttempts 19), lockedout_world\<lparr>clock_reads := 2\<rparr>)"
  using login_while_locked [of lockedout_world lockedout_record 20000 demo_platform password]
  by (simp add: lockedout_world_def world_with_fields lockedout_record_fields ceil_div_def
      numeral_2_eq_2)

lemma unlockApiKey_eval:
  assumes rec: "getAuthData w = Some a"
      and stored: "truthy_str (encryptedApiKey a)" "truthy_str (apiKeyIV a)"
  shows "unlockApiKey P password w =
     (case fst (verifyPassword P password (passwordHash a) (salt a) w) of
        Inl e \<Rightarrow> (failed FailedToDecrypt, console_error ''Unlock API key error:'' e w)
      | Inr valid \<Rightarrow>
          if \<not> valid then (failed InvalidPassword, w)
          else (case decryptData P (encryptedApiKey a) (apiKeyIV a) password (salt a) of
                  Inl e \<Rightarrow> (failed FailedToDecrypt, console_error ''Unlock API key error:'' e w)
                | Inr k \<Rightarrow>
                    (succeeded, w\<lparr>currentPassword := Some password, decryptedApiKey := Some k\<rparr>)))"
proof -
  obtain v where v: "verifyPassword P password (passwordHash a) (salt a) w = (v, w)"
    using verifyPassword_world [of P password "passwordHash a" "salt a" w w] by blast
  show ?thesis
    by (simp add: unlockApiKey_def rec stored v split: sum.splits bool.splits)
qed

lemma demo_unlock_lockedout:
  "unlockApiKey demo_platform ''hunter22'' lockedout_world =
     (succeeded, lockedout_world\<lparr>currentPassword := Some ''hunter22'',
                   decryptedApiKey := Some ''sk-abc123''\<rparr>)"
  "unlockApiKey demo_platform ''wrong'' lockedout_world = (failed InvalidPassword, lockedout_world)"
  by (simp_all add: unlockApiKey_eval [OF world_with_fields(1)]
      lockedout_world_def world_with_fields lockedout_record_fields truthy_str_def
      demo_verifyPassword demo_decryptData)

text \<open>
  Claim C4, as the code has it. With a secret stored, \<^verbatim>\<open>unlockApiKey\<close> applies the same
  \<^verbatim>\<open>verifyPassword\<close> comparison as login but no attempt policy: a wrong password gives
  \<open>InvalidPassword\<close> and changes nothing, a verifying password whose secret decrypts puts
  password and secret into memory, and in every case the stored record (\<open>failedAttempts\<close>
  and \<open>lockoutUntil\<close> included), the authentication state and the session entry stay as
  they were and the outcome is never the locked one.
\<close>

theorem unlockApiKey_without_attempt_policy:
  assumes rec: "getAuthData w = Some a"
      and stored: "truthy_str (encryptedApiKey a)" "truthy_str (apiKeyIV a)"
  shows "(fst (verifyPassword P password (passwordHash a) (salt a) w) = Inr False \<longrightarrow>
            unlockApiKey P password w = (failed InvalidPassword, w)) \<and>
         (fst (verifyPassword P password (passwordHash a) (salt a) w) = Inr True \<and>
          decryptData P (encryptedApiKey a) (apiKeyIV a) password (salt a) = Inr k \<longrightarrow>
            unlockApiKey P password w =
              (succeeded, w\<lparr>currentPassword := Some password, decryptedApiKey := Some k\<rparr>)) \<and>
         db_auth (snd (unlockApiKey P password w)) = db_auth w \<and>
         authState (snd (unlockApiKey P password w)) = authState w \<and>
         sessionStorage (snd (unlockApiKey P password w)) = sessionStorage w \<and>
         \<not> locked (fst (unlockApiKey P password w)) \<and>
         success (fst (unlockApiKey P password w)) =
           (fst (verifyPassword P password (passwordHash a) (salt a) w) = Inr True \<and>
            \<not> isl (decryptData P (encryptedApiKey a) (apiKeyIV a) password (salt a)))"
proof -
  note ev = unlockApiKey_eval [OF rec stored, of P password]
  have c1: "fst (verifyPassword P password (passwordHash a) (salt a) w) = Inr False \<longrightarrow>
            unlockApiKey P password w = (failed InvalidPassword, w)"
    by (simp add: ev)
  have c2: "fst (verifyPassword P password (passwordHash a) (salt a) w) = Inr True \<and>
          decryptData P (encryptedApiKey a) (apiKeyIV a) password (salt a) = Inr k \<longrightarrow>
            unlockApiKey P password w =
              (succeeded, w\<lparr>currentPassword := Some password, decryptedApiKey := Some k\<rparr>)"
    by (simp add: ev)
  have c3: "db_auth (snd (unlockApiKey P password w)) = db_auth w"
    by (simp add: ev console_error_def split: sum.splits)
  have c4: "authState (snd (unlockApiKey P password w)) = authState w"
    by (simp add: ev console_error_def split: sum.splits)
  have c5: "sessionStorage (snd (unlockApiKey P password w)) = sessionStorage w"
    by (simp add: ev console_error_def split: sum.splits)
  have c6: "\<not> locked (fst (unlockApiKey P password w))"
    by (simp add: ev failed_def succeeded_def split: sum.splits)
  have c7: "success (fst (unlockApiKey P password w)) =
           (fst (verifyPassword P password (passwordHash a) (salt a) w) = Inr True \<and>
            \<not> isl (decryptData P (encryptedApiKey a) (apiKeyIV a) password (salt a)))"
    by (simp add: ev failed_def succeeded_def split: sum.splits)
  from c1 c2 c3 c4 c5 c6 c7 show ?thesis by blast
qed

theorem unlockApiKey_without_attempt_policy_witness:
  "unlockApiKey demo_platform ''wrong'' lockedout_world = (failed InvalidPassword, lockedout_world) \<and>
   unlockApiKey demo_platform ''hunter22'' lockedout_world =
     (succeeded, lockedout_world\<lparr>currentPassword := Some ''hunter22'',
                   decryptedApiKey := Some ''sk-abc123''\<rparr>) \<and>
   db_auth (snd (unlockApiKey demo_platform ''hunter22'' lockedout_world)) =
     Some lockedout_record"
  using unlockApiKey_without_attempt_policy [of lockedout_world lockedout_record demo_platform
          "''wrong''" "''sk-abc123''"]
        unlockApiKey_without_attempt_policy [of lockedout_world lockedout_record demo_platform
          "''hunter22''" "''sk-abc123''"]
  by (simp add: lockedout_world_def world_with_fields lockedout_record_fields truthy_str_def
      demo_verifyPassword demo_decryptData)

text \<open>
  The claim as stated has \<^verbatim>\<open>unlockApiKey\<close> refuse during a lockout and count failures.
  During the lockout that makes login refuse the correct password, \<^verbatim>\<open>unlockApiKey\<close>
  accepts it and decrypts the secret, and a wrong password leaves the record unchanged.
\<close>

theorem unlockApiKey_lockout_counterexample:
  "lockoutUntil (the (getAuthData lockedout_world)) = Some 20000 \<and>
   fst (loginWithPassword demo_platform ''hunter22'' lockedout_world) =
     failed_locked (TooManyAttempts 19) \<and>
   fst (unlockApiKey demo_platform ''hunter22'' lockedout_world) = succeeded \<and>
   decryptedApiKey (snd (unlockApiKey demo_platform ''hunter22'' lockedout_world)) =
     Some ''sk-abc123'' \<and>
   unlockApiKey demo_platform ''wrong'' lockedout_world = (failed InvalidPassword, lockedout_world)"
  by (simp add: demo_login_lockedout demo_unlock_lockedout)
     (simp add: lockedout_world_def world_with_fields lockedout_record_fields)

lemma deleteAll_eval:
  assumes rec: "getAuthData w = Some a"
  shows "deleteAll P password w =
     (case fst (verifyPassword P password (passwordHash a) (salt a) w) of
        Inl e \<Rightarrow> (failed (ErrorMessage e), console_error ''Delete all error:'' e w)
      | Inr valid \<Rightarrow>
          if \<not> valid then (failed InvalidPassword, w)
          else (succeeded,
               w\<lparr>db_dailyEntries := [], db_auth := None, db_exerciseHistory := [],
                  decryptedApiKey := None, currentPassword := None, sessionStorage := None,
                  authState := \<lparr>isLoading = False, needsSetup = True, isAuthenticated = False,
                                 authData = None\<rparr>\<rparr>))"
proof -
  obtain v where v: "verifyPassword P password (passwordHash a) (salt a) w = (v, w)"
    using verifyPassword_world [of P password "passwordHash a" "salt a" w w] by blast
  show ?thesis
    by (simp add: deleteAll_def rec v deleteAllData_def split: sum.splits bool.splits)
qed

text \<open>
  Claim C5, as the code has it. \<^verbatim>\<open>deleteAll\<close> does not consult the lockout: it always
  evaluates the password. When the password verifies, all three tables are emptied, the
  session entry and the in-memory secret and password are dropped and the state becomes
  uninitialised (\<open>needsSetup\<close>); when it does not, nothing persisted changes. The outcome
  is never the locked one.
\<close>

theorem deleteAll_without_lockout_check:
  assumes rec: "getAuthData w = Some a"
  shows "(fst (verifyPassword P password (passwordHash a) (salt a) w) = Inr True \<longrightarrow>
            deleteAll P password w =
              (succeeded,
               w\<lparr>db_dailyEntries := [], db_auth := None, db_exerciseHistory := [],
                  decryptedApiKey := None, currentPassword := None, sessionStorage := None,
                  authState := \<lparr>isLoading = False, needsSetup = True, isAuthenticated = False,
                                 authData = None\<rparr>\<rparr>)) \<and>
         (fst (verifyPassword P password (passwordHash a) (salt a) w) = Inr False \<longrightarrow>
            deleteAll P password w = (failed InvalidPassword, w)) \<and>
         (fst (verifyPassword P password (passwordHash a) (salt a) w) \<noteq> Inr True \<longrightarrow>
            \<not> success (fst (deleteAll P password w)) \<and>
            db_auth (snd (deleteAll P password w)) = db_auth w \<and>
            db_dailyEntries (snd (deleteAll P password w)) = db_dailyEntries w \<and>
            db_exerciseHistory (snd (deleteAll P password w)) = db_exerciseHistory w) \<and>
         \<not> locked (fst (deleteAll P password w))"
proof -
  obtain v where v: "verifyPassword P password (passwordHash a) (salt a) w = (v, w)"
    using verifyPassword_world [of P password "passwordHash a" "salt a" w w] by blast
  show ?thesis
    using rec
    by (cases v; cases "projr v")
       (simp_all add: deleteAll_def v console_error_def failed_def succeeded_def
          deleteAllData_def)
qed

theorem deleteAll_without_lockout_check_witness:
  "deleteAll demo_platform ''wrong'' lockedout_world = (failed InvalidPassword, lockedout_world) \<and>
   fst (deleteAll demo_platform ''hunter22'' lockedout_world) = succeeded \<and>
   db_auth (snd (deleteAll demo_platform ''hunter22'' lockedout_world)) = None \<and>
   db_dailyEntries (snd (deleteAll demo_platform ''hunter22'' lockedout_world)) = [] \<and>
   needsSetup (authState (snd (deleteAll demo_platform ''hunter22'' lockedout_world))) \<and>
   db_dailyEntries (snd (deleteAll demo_platform ''wrong'' lockedout_world)) = [''2026-02-04'']"
  using deleteAll_without_lockout_check [of lockedout_world lockedout_record demo_platform
          "''wrong''"]
        deleteAll_without_lockout_check [of lockedout_world lockedout_record demo_platform
          "''hunter22''"]
  by (simp add: lockedout_world_def world_with_fields lockedout_record_fields
      demo_verifyPassword) (simp add: world_with_def blank_world_def)

text \<open>
  The claim as stated has \<^verbatim>\<open>deleteAll\<close> refuse during a lockout without evaluating the
  password. During the lockout that makes login refuse the correct password,
  \<^verbatim>\<open>deleteAll\<close> accepts it and deletes the record, and answers a wrong password with
  \<open>InvalidPassword\<close>.
\<close>

theorem deleteAll_lockout_counterexample:
  "lockoutUntil (the (getAuthData lockedout_world)) = Some 20000 \<and>
   fst (loginWithPassword demo_platform ''hunter22'' lockedout_world) =
     failed_locked (TooManyAttempts 19) \<and>
   fst (deleteAll demo_platform ''hunter22'' lockedout_world) = succeeded \<and>
   db_auth (snd (deleteAll demo_platform ''hunter22'' lockedout_world)) = None \<and>
   fst (deleteAll demo_platform ''wrong'' lockedout_world) = failed InvalidPassword"
  by (simp add: demo_login_lockedout)
     (simp add: deleteAll_eval [OF world_with_fields(1)]
      lockedout_world_def world_with_fields lockedout_record_fields demo_verifyPassword)


section \<open>The secret and biometric login\<close>

text \<open>Cutting \<^verbatim>\<open>saveApiKey\<close> at its last \<^verbatim>\<open>await\<close> loses nothing of the uninterrupted call.\<close>

lemma saveApiKey_uninterrupted:
  "saveApiKey_interrupted P apiKey passwordArg (\<lambda>w. w) w = saveApiKey P apiKey passwordArg w"
  by (simp add: saveApiKey_interrupted_def saveApiKey_begin_def saveApiKey_resume_def
      saveApiKey_def Let_def split: option.splits sum.splits prod.splits)


text \<open>
  When \<^verbatim>\<open>lock\<close> runs while a \<^verbatim>\<open>saveApiKey\<close> call is suspended, the continuation writes the
  secret into the memory that \<^verbatim>\<open>lock\<close> has just cleared, and leaves the state locked.
\<close>

lemma interrupted_save_leaves_secret:
  assumes "saveApiKey_begin P apiKey passwordArg w = (Inr locals, w1)"
  shows "decryptedApiKey (snd (saveApiKey_interrupted P apiKey passwordArg lock w)) = Some apiKey \<and>
         currentPassword (snd (saveApiKey_interrupted P apiKey passwordArg lock w)) = None \<and>
         \<not> isAuthenticated (authState (snd (saveApiKey_interrupted P apiKey passwordArg lock w)))"
proof -
  obtain k e iv where l: "locals = (k, e, iv)" by (cases locals) auto
  have "k = apiKey"
    using assms l
    by (auto simp: saveApiKey_begin_def Let_def split: if_splits option.splits sum.splits
        prod.splits)
  then show ?thesis
    using assms l by (simp add: saveApiKey_interrupted_def saveApiKey_resume_def Let_def lock_def)
qed

text \<open>
  \<^verbatim>\<open>loginWithBiometric\<close> neither writes nor clears the in-memory secret and password: what
  is in memory before the call is in memory after it.
\<close>

lemma authenticateBiometric_world:
  "snd (authenticateBiometric P c asserted w) = w\<lparr>entropy_used := entropy_used w + 32\<rparr>"
  by (simp add: authenticateBiometric_def getRandomValues_def split: sum.splits)

lemma biometric_login_outcome:
  "decryptedApiKey (snd (loginWithBiometric P asserted w)) = decryptedApiKey w"
  "currentPassword (snd (loginWithBiometric P asserted w)) = currentPassword w"
  "success (fst (loginWithBiometric P asserted w)) \<Longrightarrow>
     isAuthenticated (authState (snd (loginWithBiometric P asserted w)))"
proof -
  let ?c = "String_of (biometricCredentialId (spread (getAuthData w)))"
  obtain v w1 where ab: "authenticateBiometric P ?c asserted w = (v, w1)"
    by (cases "authenticateBiometric P ?c asserted w")
  have w1: "w1 = w\<lparr>entropy_used := entropy_used w + 32\<rparr>"
    using authenticateBiometric_world [of P ?c asserted w] ab by simp
  show "decryptedApiKey (snd (loginWithBiometric P asserted w)) = decryptedApiKey w"
    by (cases v; cases "projr v")
       (simp_all add: loginWithBiometric_def Let_def ab console_error_def Date_now_def w1)
  show "currentPassword (snd (loginWithBiometric P asserted w)) = currentPassword w"
    by (cases v; cases "projr v")
       (simp_all add: loginWithBiometric_def Let_def ab console_error_def Date_now_def w1)
  show "success (fst (loginWithBiometric P asserted w)) \<Longrightarrow>
     isAuthenticated (authState (snd (loginWithBiometric P asserted w)))"
    by (cases v; cases "projr v")
       (simp_all add: loginWithBiometric_def Let_def ab failed_def Date_now_def
          authenticated_state_def split: if_splits)
qed


lemma demo_biometric_result:
  assumes "getAuthData w = Some a" and "biometricEnabled a"
      and "biometricCredentialId a = Some c" and "c \<noteq> []"
  shows "fst (loginWithBiometric demo_platform True w) =
           \<lparr>success = True, error = None, locked = False,
             needsPasswordForApiKey = Some (truthy_str (encryptedApiKey a))\<rparr>"
  using assms
  by (simp add: loginWithBiometric_def authenticateBiometric_def getRandomValues_def
      demo_base64ToBuffer Let_def Date_now_def spread_def truthy_str_def String_of_def)

lemma demo_encryptData_any:
  "encryptData demo_platform plain password (Some s64) w =
     (Inr (password @ s64 @
             binary_of_bytes (map (entropy w) [entropy_used w ..< entropy_used w + 12]) [] @ plain,
           binary_of_bytes (map (entropy w) [entropy_used w ..< entropy_used w + 12]) []),
      w\<lparr>entropy_used := entropy_used w + 12\<rparr>)"
  by (simp add: encryptData_def demo_base64ToBuffer demo_deriveKey generateIV_def
      getRandomValues_def IV_LENGTH_def String_of_def demo_encrypt demo_encode
      demo_bufferToBase64 binary_of_bytes_app binary_bytes_roundtrip)

lemma demo_password_login:
  "loginWithPassword demo_platform ''hunter22'' account_world =
     (succeeded,
      account_world\<lparr>db_auth := Some (demo_record\<lparr>failedAttempts := Some 0, lockoutUntil := None\<rparr>),
        clock_reads := 1, sessionStorage := Some 1800000,
        currentPassword := Some ''hunter22'', decryptedApiKey := Some ''sk-abc123'',
        authState := authenticated_state (Some demo_record)\<rparr>)"
  by (simp add: loginWithPassword_def account_world_def world_with_fields lockout_active_def
      demo_record_fields truthy_num_def demo_verifyPassword truthy_str_def demo_decryptData
      Let_def setAuthData_def Date_now_def SESSION_TIMEOUT_def)

lemma password_session_fields:
  "getAuthData password_session_world =
     Some (demo_record\<lparr>failedAttempts := Some 0, lockoutUntil := None\<rparr>)"
  "currentPassword password_session_world = Some ''hunter22''"
  "decryptedApiKey password_session_world = Some ''sk-abc123''"
  "isAuthenticated (authState password_session_world)"
  by (simp_all add: password_session_world_def demo_password_login getAuthData_def
      authenticated_state_def)

lemma demo_save_begin:
  "\<exists>encrypted iv w1.
     saveApiKey_begin demo_platform ''sk-new'' None password_session_world =
       (Inr (''sk-new'', encrypted, iv), w1) \<and>
     encrypted \<noteq> [] \<and>
     getAuthData w1 = Some (demo_record\<lparr>failedAttempts := Some 0, lockoutUntil := None,
        encryptedApiKey := Some encrypted, apiKeyIV := Some iv\<rparr>) \<and>
     needsSetup (authState w1) = False"
  by (simp add: saveApiKey_begin_def password_session_world_def demo_password_login
      truthy_str_def Let_def demo_record_fields demo_encryptData_any setAuthData_def
      getAuthData_def authenticated_state_def)


text \<open>
  Claim C3 says that, with a secret stored, a successful biometric login gives an
  authenticated session in which the decrypted secret is not available until
  \<^verbatim>\<open>unlockApiKey\<close> is called with the correct password. The code breaks this on the
  following run. The user logs in with the password and saves the secret \<open>''sk-new''\<close>;
  while that \<^verbatim>\<open>saveApiKey\<close> call is suspended, \<^verbatim>\<open>lock\<close> runs; the call then completes and
  reports success. The application now shows the login screen, holds no password, has a
  secret stored, and has \<open>''sk-new''\<close> in memory. \<^verbatim>\<open>loginWithBiometric\<close> succeeds there, says
  that the password is needed for the secret, and yields an authenticated session in
  which the decrypted secret is available although no password was entered and
  \<^verbatim>\<open>unlockApiKey\<close> was never called.
\<close>

theorem biometric_login_after_interrupted_save:
  "fst (saveApiKey_interrupted demo_platform ''sk-new'' None lock password_session_world) =
     succeeded \<and>
   \<not> needsSetup (authState raced_world) \<and>
   \<not> isAuthenticated (authState raced_world) \<and>
   currentPassword raced_world = None \<and>
   truthy_str (encryptedApiKey (the (getAuthData raced_world))) \<and>
   fst (loginWithBiometric demo_platform True raced_world) =
     \<lparr>success = True, error = None, locked = False, needsPasswordForApiKey = Some True\<rparr> \<and>
   isAuthenticated (authState (snd (loginWithBiometric demo_platform True raced_world))) \<and>
   currentPassword (snd (loginWithBiometric demo_platform True raced_world)) = None \<and>
   decryptedApiKey (snd (loginWithBiometric demo_platform True raced_world)) = Some ''sk-new''"
proof -
  obtain encrypted iv w1 where
    b: "saveApiKey_begin demo_platform ''sk-new'' None password_session_world =
          (Inr (''sk-new'', encrypted, iv), w1)"
    and ne: "encrypted \<noteq> []"
    and rec: "getAuthData w1 = Some (demo_record\<lparr>failedAttempts := Some 0,
        lockoutUntil := None, encryptedApiKey := Some encrypted, apiKeyIV := Some iv\<rparr>)"
    and ns: "needsSetup (authState w1) = False"
    using demo_save_begin by blast
  have run: "saveApiKey_interrupted demo_platform ''sk-new'' None lock password_session_world =
      saveApiKey_resume (''sk-new'', encrypted, iv) (lock w1)"
    by (simp add: saveApiKey_interrupted_def b)
  have raced: "raced_world = snd (saveApiKey_resume (''sk-new'', encrypted, iv) (lock w1))"
    by (simp add: raced_world_def run)
  have r1: "fst (saveApiKey_resume (''sk-new'', encrypted, iv) (lock w1)) = succeeded"
    by (simp add: saveApiKey_resume_def Let_def)
  have f: "\<not> needsSetup (authState raced_world)" "\<not> isAuthenticated (authState raced_world)"
    "currentPassword raced_world = None" "decryptedApiKey raced_world = Some ''sk-new''"
    "getAuthData raced_world = Some (demo_record\<lparr>failedAttempts := Some 0,
        lockoutUntil := None, encryptedApiKey := Some encrypted, apiKeyIV := Some iv\<rparr>)"
    using ns rec
    by (simp_all add: raced saveApiKey_resume_def Let_def lock_def getAuthData_def)
  have stored: "truthy_str (encryptedApiKey (the (getAuthData raced_world)))"
    by (simp add: f truthy_str_def ne)
  have res: "fst (loginWithBiometric demo_platform True raced_world) =
     \<lparr>success = True, error = None, locked = False, needsPasswordForApiKey = Some True\<rparr>"
    using demo_biometric_result [OF f(5), of "''cred''"] ne
    by (simp add: demo_record_fields truthy_str_def)
  have auth: "isAuthenticated (authState (snd (loginWithBiometric demo_platform True raced_world)))"
    by (rule biometric_login_outcome(3)) (simp add: res)
  show ?thesis
    using run r1 f stored res auth by (simp add: biometric_login_outcome)
qed

theorem biometric_login_after_interrupted_save_witness:
  "success (fst (loginWithBiometric demo_platform True raced_world)) \<and>
   decryptedApiKey (snd (loginWithBiometric demo_platform True raced_world)) = Some ''sk-new''"
  using biometric_login_after_interrupted_save by simp

end
